theory Spec2Isabelle
  imports Complex_Main
begin

section \<open>Python runtime notions used by the server\<close>

text \<open>
  A float is modelled by the real number it denotes.  Comparisons are exact.  The float64
  operations whose rounding can decide a branch are parameters of the model (\<open>float64_ops\<close>
  below), so that what is proved holds for whatever numpy computes.  Sums and differences that
  only feed a returned score are taken without rounding.
\<close>

text \<open>
  Every exception the code can meet is a value of \<open>py_error\<close>.  \<open>SendError\<close> stands for any
  exception of class \<^verbatim>\<open>Exception\<close> that a websocket send raises; \<open>CancelledError\<close> is
  \<^verbatim>\<open>asyncio.CancelledError\<close>, which derives from \<^verbatim>\<open>BaseException\<close> only, so that
  \<^verbatim>\<open>except Exception\<close> does not catch it.
\<close>

datatype py_error = ValueError | IndexError | ValidationError | SendError | CancelledError

definition is_Exception :: "py_error \<Rightarrow> bool" where
  "is_Exception e = (e \<noteq> CancelledError)"

text \<open>
  The numpy operations on float64 values: \<^verbatim>\<open>np.mean\<close> of a non-empty one-dimensional array,
  the mean \<^verbatim>\<open>np.mean(rows, axis=0)\<close> takes down one column, and the difference of two floats.
  \<open>exact_ops\<close> is the instance without rounding.
\<close>

record float64_ops =
  np_mean :: "real list \<Rightarrow> real"
  np_mean_column :: "real list \<Rightarrow> real"
  float_sub :: "real \<Rightarrow> real \<Rightarrow> real"

definition exact_ops :: float64_ops where
  "exact_ops =
     \<lparr>np_mean = (\<lambda>xs. sum_list xs / real (length xs)),
      np_mean_column = (\<lambda>xs. sum_list xs / real (length xs)),
      float_sub = (\<lambda>a b. a - b)\<rparr>"

text \<open>The float64 value of the literal \<^verbatim>\<open>0.08\<close>: the double nearest to 8/100.\<close>

definition float64_0_08 :: real where
  "float64_0_08 = 5764607523034235 / 2 ^ 56"

text \<open>\<^verbatim>\<open>xs[k:]\<close> for a Python list and an integer \<open>k\<close>: a negative start counts from the end and
  is clamped at the beginning of the list.\<close>

definition py_slice_from :: "int \<Rightarrow> 'a list \<Rightarrow> 'a list" where
  "py_slice_from k xs =
     (if k < 0 then drop (nat (max 0 (int (length xs) + k))) xs else drop (nat k) xs)"

text \<open>\<^verbatim>\<open>collections.deque(maxlen=n).append(x)\<close>: the element is added on the right and, when the
  bound is exceeded, elements are discarded from the left.\<close>

definition deque_append :: "nat \<Rightarrow> 'a list \<Rightarrow> 'a \<Rightarrow> 'a list" where
  "deque_append n xs x = (let ys = xs @ [x] in drop (length ys - n) ys)"

text \<open>\<^verbatim>\<open>np.clip(x, lo, hi)\<close> on a scalar.\<close>

definition np_clip :: "real \<Rightarrow> real \<Rightarrow> real \<Rightarrow> real" where
  "np_clip x lo hi = min (max x lo) hi"

text \<open>\<^verbatim>\<open>np.mean(rows, axis=0)\<close> of a list of rows: the mean of every column.  Rows of different
  lengths do not form an array (\<^verbatim>\<open>ValueError\<close>).  For no rows at all numpy returns a scalar,
  which like the empty result here cannot be indexed.\<close>

definition np_mean_axis0 :: "float64_ops \<Rightarrow> real list list \<Rightarrow> py_error + real list" where
  "np_mean_axis0 fl rows =
     (case rows of
        [] \<Rightarrow> Inr []
      | r0 # _ \<Rightarrow>
          if list_ex (\<lambda>r. length r \<noteq> length r0) rows then Inl ValueError
          else Inr (map (\<lambda>j. np_mean_column fl (map (\<lambda>r. r ! j) rows)) [0..<length r0]))"

text \<open>\<^verbatim>\<open>head_pose.get(key, 0)\<close>.\<close>

definition pose_get :: "(string \<rightharpoonup> real) \<Rightarrow> string \<Rightarrow> real" where
  "pose_get head_pose k = (case head_pose k of None \<Rightarrow> 0 | Some v \<Rightarrow> v)"

text \<open>A head pose dictionary holding a yaw and a pitch.\<close>

definition pose_of :: "real \<Rightarrow> real \<Rightarrow> (string \<rightharpoonup> real)" where
  "pose_of yaw pitch = [''yaw'' \<mapsto> yaw, ''pitch'' \<mapsto> pitch]"

text \<open>The most recent \<open>n\<close> elements of a chronological list.\<close>

definition most_recent :: "nat \<Rightarrow> 'a list \<Rightarrow> 'a list" where
  "most_recent n xs = drop (length xs - n) xs"

section \<open>MemoryStore (main.py)\<close>

text \<open>The dictionaries the store keeps, in the latest slot and in the history alike: a clock
  reading under \<^verbatim>\<open>"timestamp"\<close> and the snapshot under \<^verbatim>\<open>"data"\<close>.  The clock is a parameter
  of the operations that read it.\<close>

record ('t, 'd) history_entry =
  entry_timestamp :: 't
  entry_data :: 'd

record ('t, 'd) MemoryStore =
  classroom_data :: "string \<rightharpoonup> ('t, 'd) history_entry"
  history_data :: "string \<rightharpoonup> ('t, 'd) history_entry list"
  max_history :: int

definition MemoryStore_init :: "int \<Rightarrow> ('t, 'd) MemoryStore" where
  "MemoryStore_init n = \<lparr>classroom_data = Map.empty, history_data = Map.empty, max_history = n\<rparr>"

definition set_latest :: "('t, 'd) MemoryStore \<Rightarrow> string \<Rightarrow> 't \<Rightarrow> 'd \<Rightarrow> ('t, 'd) MemoryStore" where
  "set_latest st classroom_id now d =
     st\<lparr>classroom_data :=
          (classroom_data st)(classroom_id \<mapsto> \<lparr>entry_timestamp = now, entry_data = d\<rparr>)\<rparr>"

definition get_latest :: "('t, 'd) MemoryStore \<Rightarrow> string \<Rightarrow> ('t, 'd) history_entry option" where
  "get_latest st classroom_id = classroom_data st classroom_id"

text \<open>\<open>history_data\<close> is a \<^verbatim>\<open>defaultdict\<close> whose factory builds \<^verbatim>\<open>deque(maxlen=max_history)\<close>;
  the factory runs on the first access of a key and raises \<^verbatim>\<open>ValueError\<close> for a negative bound.\<close>

definition add_history ::
  "('t, 'd) MemoryStore \<Rightarrow> string \<Rightarrow> 't \<Rightarrow> 'd \<Rightarrow> py_error + ('t, 'd) MemoryStore" where
  "add_history st classroom_id now d =
     (let entry = \<lparr>entry_timestamp = now, entry_data = d\<rparr> in
      case history_data st classroom_id of
        None \<Rightarrow>
          if max_history st < 0 then Inl ValueError
          else Inr (st\<lparr>history_data := (history_data st)
                 (classroom_id \<mapsto> deque_append (nat (max_history st)) [] entry)\<rparr>)
      | Some h \<Rightarrow>
          Inr (st\<lparr>history_data := (history_data st)
                 (classroom_id \<mapsto> deque_append (nat (max_history st)) h entry)\<rparr>))"

definition get_history :: "('t, 'd) MemoryStore \<Rightarrow> string \<Rightarrow> int \<Rightarrow> ('t, 'd) history_entry list" where
  "get_history st classroom_id limit =
     py_slice_from (- limit) (case history_data st classroom_id of None \<Rightarrow> [] | Some h \<Rightarrow> h)"

text \<open>Inserting a sequence of (time, data) pairs one after the other; the first failure stops.\<close>

fun add_history_all ::
  "('t, 'd) MemoryStore \<Rightarrow> string \<Rightarrow> ('t \<times> 'd) list \<Rightarrow> py_error + ('t, 'd) MemoryStore" where
  "add_history_all st classroom_id [] = Inr st"
| "add_history_all st classroom_id ((now, d) # es) =
     (case add_history st classroom_id now d of
        Inl e \<Rightarrow> Inl e
      | Inr st' \<Rightarrow> add_history_all st' classroom_id es)"

definition mk_entry :: "'t \<times> 'd \<Rightarrow> ('t, 'd) history_entry" where
  "mk_entry p = \<lparr>entry_timestamp = fst p, entry_data = snd p\<rparr>"

text \<open>The buffered history of a classroom, empty for an unknown classroom.\<close>

definition buffered :: "('t, 'd) MemoryStore \<Rightarrow> string \<Rightarrow> ('t, 'd) history_entry list" where
  "buffered st cid = (case history_data st cid of None \<Rightarrow> [] | Some h \<Rightarrow> h)"

section \<open>ConnectionManager (main.py)\<close>

text \<open>
  \<open>active_connections\<close> is a \<^verbatim>\<open>defaultdict(list)\<close>.  The transport is a parameter:
  \<open>send c msg\<close> is the outcome of \<^verbatim>\<open>await c.send_text(msg)\<close>, delivered or an exception.
\<close>

type_synonym 'c ConnectionManager = "string \<rightharpoonup> 'c list"

definition connect :: "'c ConnectionManager \<Rightarrow> 'c \<Rightarrow> string \<Rightarrow> 'c ConnectionManager" where
  "connect active_connections websocket classroom_id =
     active_connections(classroom_id \<mapsto>
        (case active_connections classroom_id of None \<Rightarrow> [] | Some l \<Rightarrow> l) @ [websocket])"

text \<open>Reading a missing key of the \<^verbatim>\<open>defaultdict\<close> creates it; \<^verbatim>\<open>list.remove\<close> deletes the
  first occurrence.\<close>

definition disconnect :: "'c ConnectionManager \<Rightarrow> 'c \<Rightarrow> string \<Rightarrow> 'c ConnectionManager" where
  "disconnect active_connections websocket classroom_id =
     (case active_connections classroom_id of
        None \<Rightarrow> active_connections(classroom_id \<mapsto> [])
      | Some l \<Rightarrow>
          if websocket \<in> set l then active_connections(classroom_id \<mapsto> remove1 websocket l)
          else active_connections)"

text \<open>
  While a broadcast awaits a send, other tasks of the event loop run: websocket handlers that
  connect or disconnect.  What they do to the manager during the successive awaits of one
  broadcast is a schedule, one list of calls for each await, nothing once it is exhausted.
\<close>

datatype 'c manager_call = Connect 'c string | Disconnect 'c string

definition manager_calls :: "'c manager_call list \<Rightarrow> 'c ConnectionManager \<Rightarrow> 'c ConnectionManager" where
  "manager_calls calls m =
     fold (\<lambda>call m. case call of Connect ws cid \<Rightarrow> connect m ws cid
                              | Disconnect ws cid \<Rightarrow> disconnect m ws cid) calls m"

text \<open>
  The sending loop of \<open>broadcast\<close>.  The \<^verbatim>\<open>for\<close> statement walks the live list of the classroom
  by position \<open>i\<close>.  The result is the manager as the other tasks left it, the connections whose
  send raised an \<^verbatim>\<open>Exception\<close>, the trace of send attempts (connection, delivered?) in the order
  they were made, and the exception that left the loop, if any: \<^verbatim>\<open>except Exception\<close> catches
  no other \<^verbatim>\<open>BaseException\<close>.
\<close>

function broadcast_loop ::
  "('c \<Rightarrow> 'm \<Rightarrow> py_error + unit) \<Rightarrow> 'm \<Rightarrow> string \<Rightarrow> 'c manager_call list list \<Rightarrow> nat
     \<Rightarrow> 'c ConnectionManager \<Rightarrow> 'c list \<Rightarrow> ('c \<times> bool) list
     \<Rightarrow> 'c ConnectionManager \<times> 'c list \<times> ('c \<times> bool) list \<times> py_error option" where
  "broadcast_loop send message cid others i m disconnected trace =
     (let l = (case m cid of None \<Rightarrow> [] | Some l \<Rightarrow> l) in
      if i < length l then
        (let connection = l ! i;
             m' = (case others of [] \<Rightarrow> m | calls # _ \<Rightarrow> manager_calls calls m)
         in case send connection message of
              Inr _ \<Rightarrow>
                broadcast_loop send message cid (tl others) (i + 1) m' disconnected
                  (trace @ [(connection, True)])
            | Inl e \<Rightarrow>
                if is_Exception e then
                  broadcast_loop send message cid (tl others) (i + 1) m'
                    (disconnected @ [connection]) (trace @ [(connection, False)])
                else (m', disconnected, trace @ [(connection, False)], Some e))
      else (m, disconnected, trace, None))"
  by pat_completeness auto
termination
  by (relation "measures
        [\<lambda>(send, message, cid, others, i, m, disconnected, trace). length others,
         \<lambda>(send, message, cid, others, i, m, disconnected, trace).
            length (case m cid of None \<Rightarrow> [] | Some l \<Rightarrow> l) - i]")
     (auto split: list.splits)

declare broadcast_loop.simps [simp del]

text \<open>\<open>broadcast\<close>: the manager afterwards, the trace of send attempts, and the exception that
  left it, if any.\<close>

definition broadcast ::
  "'c ConnectionManager \<Rightarrow> ('c \<Rightarrow> 'm \<Rightarrow> py_error + unit) \<Rightarrow> 'c manager_call list list \<Rightarrow> string
     \<Rightarrow> 'm \<Rightarrow> 'c ConnectionManager \<times> ('c \<times> bool) list \<times> py_error option" where
  "broadcast active_connections send others classroom_id message =
     (case active_connections classroom_id of
        None \<Rightarrow> (active_connections, [], None)
      | Some _ \<Rightarrow>
          (case broadcast_loop send message classroom_id others 0 active_connections [] [] of
             (m, disconnected, trace, Some e) \<Rightarrow> (m, trace, Some e)
           | (m, disconnected, trace, None) \<Rightarrow>
               (fold (\<lambda>conn m. disconnect m conn classroom_id) disconnected m, trace, None)))"

section \<open>AttentionAnalyzer (main.py, models/attemtion_net.py)\<close>

text \<open>
  The class in main.py and the one in models/attemtion_net.py compute the same function; the
  module only names the thresholds 15, 20 and -15 as attributes.  The landmark check raises
  when the first hundred rows do not form an array or have no first coordinate.
\<close>

definition AttentionAnalyzer_predict ::
  "float64_ops \<Rightarrow> real list list \<Rightarrow> (string \<rightharpoonup> real) \<Rightarrow> py_error + real" where
  "AttentionAnalyzer_predict fl landmarks head_pose =
     (let score = 100;
          yaw = \<bar>pose_get head_pose ''yaw''\<bar>;
          pitch = pose_get head_pose ''pitch'';
          score = (if yaw > 15 then score - min ((yaw - 15) * (3 / 2)) 40 else score);
          score = (if pitch > 20 then score - 25
                   else if pitch < - 15 then score - 15 else score)
      in if length landmarks > 468 then
           (case np_mean_axis0 fl (take 100 landmarks) of
              Inl e \<Rightarrow> Inl e
            | Inr face_center \<Rightarrow>
                (case landmarks ! 1 of
                   [] \<Rightarrow> Inl IndexError
                 | nose_x # _ \<Rightarrow>
                     (case face_center of
                        [] \<Rightarrow> Inl IndexError
                      | center_x # _ \<Rightarrow>
                          Inr (np_clip (if \<bar>float_sub fl nose_x center_x\<bar> > float64_0_08
                                        then score - 15 else score) 0 100))))
         else Inr (np_clip score 0 100))"

text \<open>The landmark lists on which the check of the mesh can be computed: at most 468 points, or
  the first hundred points are non-empty rows of one length.\<close>

definition landmarks_ok :: "real list list \<Rightarrow> bool" where
  "landmarks_ok lm =
     (length lm \<le> 468 \<or> (lm ! 0 \<noteq> [] \<and> list_all (\<lambda>r. length r = length (lm ! 0)) (take 100 lm)))"

text \<open>The score as the specification words it, the offset of point 1 from the mean of the
  first hundred points being the float64 one.\<close>

definition attention_spec :: "float64_ops \<Rightarrow> real list list \<Rightarrow> (string \<rightharpoonup> real) \<Rightarrow> real" where
  "attention_spec fl lm hp =
     (let yaw = pose_get hp ''yaw''; pitch = pose_get hp ''pitch'' in
      np_clip (100
               - (if \<bar>yaw\<bar> > 15 then min ((\<bar>yaw\<bar> - 15) * (3 / 2)) 40 else 0)
               - (if pitch > 20 then 25 else 0)
               - (if pitch < - 15 then 15 else 0)
               - (if length lm > 468 \<and>
                     \<bar>float_sub fl (hd (lm ! 1)) (np_mean_column fl (map hd (take 100 lm)))\<bar>
                       > float64_0_08 then 15 else 0))
        0 100)"

section \<open>FatigueAnalyzer (models/fatigue_net.py)\<close>

record FatigueAnalyzer =
  ear_history :: "string \<rightharpoonup> real list"
  mar_history :: "string \<rightharpoonup> real list"
  history_size :: int

definition FatigueAnalyzer_init :: "int \<Rightarrow> FatigueAnalyzer" where
  "FatigueAnalyzer_init n = \<lparr>ear_history = Map.empty, mar_history = Map.empty, history_size = n\<rparr>"

definition ear_closed_threshold :: real where "ear_closed_threshold = 2 / 10"
definition mar_yawn_threshold :: real where "mar_yawn_threshold = 5 / 10"
definition perclos_drowsy :: real where "perclos_drowsy = 3 / 10"
definition perclos_tired :: real where "perclos_tired = 15 / 100"

text \<open>The first access of a student's ear window builds \<^verbatim>\<open>deque(maxlen=history_size)\<close>, which
  raises for a negative size before anything is stored.\<close>

definition FatigueAnalyzer_predict ::
  "float64_ops \<Rightarrow> FatigueAnalyzer \<Rightarrow> real \<Rightarrow> real \<Rightarrow> string
     \<Rightarrow> py_error + (FatigueAnalyzer \<times> string)" where
  "FatigueAnalyzer_predict fl self ear mar student_id =
     (if ear_history self student_id = None \<and> history_size self < 0 then Inl ValueError
      else
        let ear_array = deque_append (nat (history_size self))
                          (case ear_history self student_id of None \<Rightarrow> [] | Some w \<Rightarrow> w) ear;
            mar_array = deque_append 10
                          (case mar_history self student_id of None \<Rightarrow> [] | Some w \<Rightarrow> w) mar;
            self = self\<lparr>ear_history := (ear_history self)(student_id \<mapsto> ear_array),
                        mar_history := (mar_history self)(student_id \<mapsto> mar_array)\<rparr>
        in if length ear_array < 10 then Inr (self, ''alert'')
           else
             let closed_frames = length (filter (\<lambda>e. e < ear_closed_threshold) ear_array);
                 perclos = real closed_frames / real (length ear_array);
                 is_yawning = (np_mean fl mar_array > mar_yawn_threshold)
             in if perclos > perclos_drowsy then Inr (self, ''drowsy'')
                else if perclos > perclos_tired \<or> is_yawning then Inr (self, ''tired'')
                else Inr (self, ''alert''))"

text \<open>Feeding a sequence of (student, ear, mar) samples, collecting the returned levels.\<close>

fun FatigueAnalyzer_run ::
  "float64_ops \<Rightarrow> FatigueAnalyzer \<Rightarrow> (string \<times> real \<times> real) list
     \<Rightarrow> py_error + (FatigueAnalyzer \<times> string list)" where
  "FatigueAnalyzer_run fl self [] = Inr (self, [])"
| "FatigueAnalyzer_run fl self ((sid, ear, mar) # rest) =
     (case FatigueAnalyzer_predict fl self ear mar sid of
        Inl e \<Rightarrow> Inl e
      | Inr (self', level) \<Rightarrow>
          (case FatigueAnalyzer_run fl self' rest of
             Inl e \<Rightarrow> Inl e
           | Inr (self'', levels) \<Rightarrow> Inr (self'', level # levels)))"

section \<open>FatigueAnalyzer (main.py)\<close>

text \<open>The class wired into the analysis endpoint keeps only the ear windows, of capacity 30.\<close>

type_synonym main_FatigueAnalyzer = "string \<rightharpoonup> real list"

definition main_FatigueAnalyzer_init :: main_FatigueAnalyzer where
  "main_FatigueAnalyzer_init = Map.empty"

definition main_FatigueAnalyzer_predict ::
  "main_FatigueAnalyzer \<Rightarrow> real \<Rightarrow> real \<Rightarrow> string \<Rightarrow> main_FatigueAnalyzer \<times> string" where
  "main_FatigueAnalyzer_predict ear_hist ear mar student_id =
     (let ear_array = deque_append 30
                        (case ear_hist student_id of None \<Rightarrow> [] | Some w \<Rightarrow> w) ear;
          ear_hist = ear_hist(student_id \<mapsto> ear_array)
      in if length ear_array < 10 then (ear_hist, ''alert'')
         else
           let closed_frames = length (filter (\<lambda>e. e < 2 / 10) ear_array);
               closed_ratio = real closed_frames / real (length ear_array);
               is_yawning = (mar > 5 / 10)
           in if closed_ratio > 7 / 10 then (ear_hist, ''drowsy'')
              else if closed_ratio > 3 / 10 \<or> is_yawning then (ear_hist, ''tired'')
              else (ear_hist, ''alert''))"

fun main_FatigueAnalyzer_run ::
  "main_FatigueAnalyzer \<Rightarrow> (string \<times> real \<times> real) list \<Rightarrow> main_FatigueAnalyzer \<times> string list" where
  "main_FatigueAnalyzer_run h [] = (h, [])"
| "main_FatigueAnalyzer_run h ((sid, ear, mar) # rest) =
     (case main_FatigueAnalyzer_predict h ear mar sid of
        (h', level) \<Rightarrow>
          (case main_FatigueAnalyzer_run h' rest of
             (h'', levels) \<Rightarrow> (h'', level # levels)))"

text \<open>The buffered windows of a student, empty for an unknown student.\<close>

definition ear_window :: "FatigueAnalyzer \<Rightarrow> string \<Rightarrow> real list" where
  "ear_window fa sid = (case ear_history fa sid of None \<Rightarrow> [] | Some w \<Rightarrow> w)"

definition mar_window :: "FatigueAnalyzer \<Rightarrow> string \<Rightarrow> real list" where
  "mar_window fa sid = (case mar_history fa sid of None \<Rightarrow> [] | Some w \<Rightarrow> w)"

definition main_ear_window :: "main_FatigueAnalyzer \<Rightarrow> string \<Rightarrow> real list" where
  "main_ear_window h sid = (case h sid of None \<Rightarrow> [] | Some w \<Rightarrow> w)"

text \<open>The samples of one student in an input sequence, in order.\<close>

definition ears_of :: "string \<Rightarrow> (string \<times> real \<times> real) list \<Rightarrow> real list" where
  "ears_of sid ins = map (\<lambda>x. fst (snd x)) (filter (\<lambda>x. fst x = sid) ins)"

definition mars_of :: "string \<Rightarrow> (string \<times> real \<times> real) list \<Rightarrow> real list" where
  "mars_of sid ins = map (\<lambda>x. snd (snd x)) (filter (\<lambda>x. fst x = sid) ins)"

text \<open>PERCLOS of a window: the fraction of its values below the closed-eye threshold 0.2.  The
  quotient of the two counts is taken exactly; against 0.3, 0.15 and 0.7 the float64 quotient
  compares the same way for every window a process can hold.\<close>

definition PERCLOS :: "real list \<Rightarrow> real" where
  "PERCLOS w = real (length (filter (\<lambda>e. e < 2 / 10) w)) / real (length w)"

text \<open>The decision of the classifier as the specification words it, on the ear window and the
  mouth window after the sample was appended.  The yawn flag is set when the float64 mean of the
  mouth window exceeds 0.5.\<close>

definition classify_spec :: "float64_ops \<Rightarrow> real list \<Rightarrow> real list \<Rightarrow> string" where
  "classify_spec fl ear_w mar_w =
     (if length ear_w < 10 then ''alert''
      else if PERCLOS ear_w > 3 / 10 then ''drowsy''
      else if PERCLOS ear_w > 15 / 100 \<or> np_mean fl mar_w > 5 / 10 then ''tired''
      else ''alert'')"

text \<open>The decision main.py takes, on the ear window and the current mouth sample.\<close>

definition main_classify :: "real list \<Rightarrow> real \<Rightarrow> string" where
  "main_classify ear_w mar =
     (if length ear_w < 10 then ''alert''
      else if PERCLOS ear_w > 7 / 10 then ''drowsy''
      else if PERCLOS ear_w > 3 / 10 \<or> mar > 5 / 10 then ''tired''
      else ''alert'')"

section \<open>BehaviorAnalyzer (analysis/benavior_engine.py)\<close>

definition BehaviorAnalyzer_analyze :: "(string \<rightharpoonup> real) \<Rightarrow> string \<Rightarrow> string list" where
  "BehaviorAnalyzer_analyze head_pose fatigue =
     (let yaw = pose_get head_pose ''yaw'';
          pitch = pose_get head_pose ''pitch'';
          tags = (if \<bar>yaw\<bar> \<le> 15 then
                    (if \<bar>pitch\<bar> \<le> 20 then [''looking_front'']
                     else if pitch > 25 then [''looking_down'']
                     else [])
                  else if \<bar>yaw\<bar> > 45 then [''turning_around'']
                  else if yaw > 20 then [''looking_left'']
                  else if yaw < - 20 then [''looking_right'']
                  else []);
          tags = (if fatigue = ''drowsy'' then
                    tags @ [''eyes_closed'']
                         @ (if pitch > 35 then [''head_dropping''] else [])
                  else if fatigue = ''tired'' then tags @ [''rubbing_eyes'']
                  else tags);
          tags = (if \<bar>pitch\<bar> > 40 then tags @ [''head_down''] else tags)
      in tags)"

section \<open>BehaviorAnalyzer (main.py)\<close>

definition main_BehaviorAnalyzer_analyze :: "(string \<rightharpoonup> real) \<Rightarrow> string \<Rightarrow> string list" where
  "main_BehaviorAnalyzer_analyze head_pose fatigue =
     (let yaw = pose_get head_pose ''yaw'';
          pitch = pose_get head_pose ''pitch'';
          tags = (if \<bar>yaw\<bar> < 15 \<and> \<bar>pitch\<bar> < 20 then [''looking_front'']
                  else if pitch > 25 then [''looking_down'']
                  else if \<bar>yaw\<bar> > 45 then [''turning_around'']
                  else []);
          tags = (if fatigue = ''drowsy'' then tags @ [''eyes_closed''] else tags);
          tags = (if pitch > 35 \<and> fatigue \<in> set [''drowsy'', ''tired'']
                  then tags @ [''head_dropping''] else tags)
      in tags)"

text \<open>The direction tags, and the documented rule list read first match first.\<close>

definition direction_tags :: "string list" where
  "direction_tags =
     [''looking_front'', ''looking_down'', ''turning_around'', ''looking_left'', ''looking_right'']"

definition direction_spec :: "real \<Rightarrow> real \<Rightarrow> string list" where
  "direction_spec yaw pitch =
     (if \<bar>yaw\<bar> \<le> 15 \<and> \<bar>pitch\<bar> \<le> 20 then [''looking_front'']
      else if \<bar>yaw\<bar> \<le> 15 \<and> pitch > 25 then [''looking_down'']
      else if \<bar>yaw\<bar> > 45 then [''turning_around'']
      else if yaw > 20 then [''looking_left'']
      else if yaw < - 20 then [''looking_right'']
      else [])"

text \<open>The fatigue and posture tags as the specification words them.\<close>

definition fatigue_posture_tags :: "string list" where
  "fatigue_posture_tags = [''eyes_closed'', ''head_dropping'', ''rubbing_eyes'', ''head_down'']"

definition fatigue_posture_spec :: "real \<Rightarrow> string \<Rightarrow> string list" where
  "fatigue_posture_spec pitch fatigue =
     (if fatigue = ''drowsy'' then [''eyes_closed''] else [])
     @ (if fatigue = ''drowsy'' \<and> pitch > 35 then [''head_dropping''] else [])
     @ (if fatigue = ''tired'' then [''rubbing_eyes''] else [])
     @ (if \<bar>pitch\<bar> > 40 then [''head_down''] else [])"

text \<open>What main.py computes for the direction and for the fatigue and posture tags.\<close>

definition main_direction :: "real \<Rightarrow> real \<Rightarrow> string list" where
  "main_direction yaw pitch =
     (if \<bar>yaw\<bar> < 15 \<and> \<bar>pitch\<bar> < 20 then [''looking_front'']
      else if pitch > 25 then [''looking_down'']
      else if \<bar>yaw\<bar> > 45 then [''turning_around'']
      else [])"

definition main_fatigue_posture :: "real \<Rightarrow> string \<Rightarrow> string list" where
  "main_fatigue_posture pitch fatigue =
     (if fatigue = ''drowsy'' then [''eyes_closed''] else [])
     @ (if pitch > 35 \<and> (fatigue = ''drowsy'' \<or> fatigue = ''tired'') then [''head_dropping''] else [])"

section \<open>Engagement and suggestions (main.py)\<close>

definition penalties :: "string \<Rightarrow> real" where
  "penalties fatigue =
     (if fatigue = ''alert'' then 0 else if fatigue = ''tired'' then - 10
      else if fatigue = ''drowsy'' then - 30 else 0)"

definition bonuses :: "string \<Rightarrow> real" where
  "bonuses behavior =
     (if behavior = ''looking_front'' then 5 else if behavior = ''turning_around'' then - 5
      else if behavior = ''head_dropping'' then - 20 else 0)"

definition calculate_engagement :: "real \<Rightarrow> string \<Rightarrow> string list \<Rightarrow> real" where
  "calculate_engagement attention fatigue behaviors =
     np_clip (foldl (\<lambda>score behavior. score + bonuses behavior)
                (attention + penalties fatigue) behaviors) 0 100"

datatype suggestion =
  Suggest_wake | Suggest_question | Suggest_intervene | Suggest_interact | Suggest_discipline

definition generate_suggestions :: "real \<Rightarrow> string \<Rightarrow> string list \<Rightarrow> suggestion list" where
  "generate_suggestions attention fatigue behaviors =
     (if fatigue = ''drowsy'' then [Suggest_wake]
      else if fatigue = ''tired'' then [Suggest_question] else [])
     @ (if attention < 40 then [Suggest_intervene]
        else if attention < 60 then [Suggest_interact] else [])
     @ (if ''turning_around'' \<in> set behaviors then [Suggest_discipline] else [])"

section \<open>Request and response models (main.py)\<close>

record StudentData =
  student_id :: string
  face_bbox :: "int list"
  landmarks :: "real list list"
  head_pose :: "string \<rightharpoonup> real"
  eye_aspect_ratio :: real
  mouth_aspect_ratio :: real
  local_timestamp :: real

record AnalysisRequest =
  classroom_id :: string
  course_id :: string
  timestamp :: string
  student_count :: int
  students :: "StudentData list"

record StudentStatus =
  status_student_id :: string
  attention_score :: real
  fatigue_level :: string
  behavior_tags :: "string list"
  engagement_index :: real
  suggestions :: "suggestion list"

text \<open>The model validates \<open>attention_score\<close> and \<open>engagement_index\<close> to lie in [0, 100].\<close>

definition StudentStatus_new ::
  "string \<Rightarrow> real \<Rightarrow> string \<Rightarrow> string list \<Rightarrow> real \<Rightarrow> suggestion list \<Rightarrow> py_error + StudentStatus" where
  "StudentStatus_new sid attention fatigue behaviors engagement sugg =
     (if 0 \<le> attention \<and> attention \<le> 100 \<and> 0 \<le> engagement \<and> engagement \<le> 100
      then Inr \<lparr>status_student_id = sid, attention_score = attention, fatigue_level = fatigue,
                 behavior_tags = behaviors, engagement_index = engagement, suggestions = sugg\<rparr>
      else Inl ValidationError)"

datatype recommendation =
  Rec_waiting | Rec_attention_low | Rec_some_distracted | Rec_many_drowsy | Rec_some_tired
  | Rec_low_engagement | Rec_math_visual | Rec_good

datatype alert = Alert_critical nat | Alert_sleeping nat

record AnalysisResponse =
  resp_classroom_id :: string
  analysis_timestamp :: string
  overall_attention :: real
  student_statuses :: "StudentStatus list"
  teaching_recommendations :: "recommendation list"
  alert_flags :: "alert list"

section \<open>Classroom aggregation (main.py)\<close>

text \<open>\<^verbatim>\<open>str.lower\<close> on the ASCII letters, and \<^verbatim>\<open>needle in haystack\<close>.\<close>

definition lower_char :: "char \<Rightarrow> char" where
  "lower_char c =
     (let n = (of_char c :: nat) in if 65 \<le> n \<and> n \<le> 90 then char_of (n + 32) else c)"

fun str_contains :: "string \<Rightarrow> string \<Rightarrow> bool" where
  "str_contains needle [] = (needle = [])"
| "str_contains needle (c # cs) =
     (take (length needle) (c # cs) = needle \<or> str_contains needle cs)"

definition generate_teaching_recommendations ::
  "float64_ops \<Rightarrow> StudentStatus list \<Rightarrow> string \<Rightarrow> recommendation list" where
  "generate_teaching_recommendations fl statuses course =
     (if statuses = [] then [Rec_waiting]
      else
        let avg_attention = np_mean fl (map attention_score statuses);
            drowsy_ratio = real (length (filter (\<lambda>s. fatigue_level s = ''drowsy'') statuses))
                             / real (length statuses);
            low_engagement = real (length (filter (\<lambda>s. engagement_index s < 40) statuses))
                             / real (length statuses);
            recommendations =
              (if avg_attention < 50 then [Rec_attention_low]
               else if avg_attention < 70 then [Rec_some_distracted] else [])
              @ (if drowsy_ratio > 3 / 10 then [Rec_many_drowsy]
                 else if drowsy_ratio > 1 / 10 then [Rec_some_tired] else [])
              @ (if low_engagement > 5 / 10 then [Rec_low_engagement] else [])
              @ (if str_contains ''math'' (map lower_char course) \<and> avg_attention < 65
                 then [Rec_math_visual] else [])
        in if recommendations = [] then [Rec_good] else recommendations)"

definition detect_anomalies :: "StudentStatus list \<Rightarrow> alert list" where
  "detect_anomalies statuses =
     (let critical = filter (\<lambda>s. engagement_index s < 20) statuses;
          sleeping = filter (\<lambda>s. ''head_dropping'' \<in> set (behavior_tags s)) statuses
      in (if length critical > 0 then [Alert_critical (length critical)] else [])
         @ (if length sleeping > 2 then [Alert_sleeping (length sleeping)] else []))"

section \<open>The analysis endpoint (main.py)\<close>

text \<open>The per-student loop of \<open>analyze_classroom\<close>.  The fatigue analyser is mutated on the way,
  so the loop returns it together with either the exception raised or the statuses.\<close>

fun analyze_students ::
  "float64_ops \<Rightarrow> main_FatigueAnalyzer \<Rightarrow> StudentData list \<Rightarrow> StudentStatus list
     \<Rightarrow> main_FatigueAnalyzer \<times> (py_error + StudentStatus list)" where
  "analyze_students fl fa [] acc = (fa, Inr acc)"
| "analyze_students fl fa (student # rest) acc =
     (case AttentionAnalyzer_predict fl (landmarks student) (head_pose student) of
        Inl e \<Rightarrow> (fa, Inl e)
      | Inr attention \<Rightarrow>
          (case main_FatigueAnalyzer_predict fa (eye_aspect_ratio student)
                  (mouth_aspect_ratio student) (student_id student) of
             (fa', fatigue) \<Rightarrow>
               let behaviors = main_BehaviorAnalyzer_analyze (head_pose student) fatigue;
                   engagement = calculate_engagement attention fatigue behaviors;
                   sugg = generate_suggestions attention fatigue behaviors
               in case StudentStatus_new (student_id student) attention fatigue behaviors
                         engagement sugg of
                    Inl e \<Rightarrow> (fa', Inl e)
                  | Inr status \<Rightarrow> analyze_students fl fa' rest (acc @ [status])))"

record 'c Server =
  fatigue_analyzer :: main_FatigueAnalyzer
  store :: "(string, AnalysisResponse) MemoryStore"
  manager :: "'c ConnectionManager"

datatype http_error = HTTPException nat py_error

text \<open>The background task: store the result, then broadcast it.  An exception ends the task
  where it is raised; the response has been sent by then.  The endpoint is modelled one request
  at a time, so this broadcast runs with no other task calling the manager.\<close>

definition save_and_broadcast ::
  "'c Server \<Rightarrow> ('c \<Rightarrow> AnalysisResponse \<Rightarrow> py_error + unit) \<Rightarrow> string \<Rightarrow> AnalysisResponse
     \<Rightarrow> string \<Rightarrow> string \<Rightarrow> 'c Server" where
  "save_and_broadcast srv send cid result now_latest now_history =
     (let st1 = set_latest (store srv) cid now_latest result in
      case add_history st1 cid now_history result of
        Inl e \<Rightarrow> srv\<lparr>store := st1\<rparr>
      | Inr st2 \<Rightarrow>
          (case broadcast (manager srv) send [] cid result of
             (m, trace, raised) \<Rightarrow> srv\<lparr>store := st2, manager := m\<rparr>))"

text \<open>One request to the endpoint, with the background task run after the response is built.
  The three clock readings are those of the response, \<open>set_latest\<close> and \<open>add_history\<close>.\<close>

definition analyze_classroom ::
  "float64_ops \<Rightarrow> 'c Server \<Rightarrow> ('c \<Rightarrow> AnalysisResponse \<Rightarrow> py_error + unit) \<Rightarrow> AnalysisRequest
     \<Rightarrow> string \<Rightarrow> string \<Rightarrow> string \<Rightarrow> 'c Server \<times> (http_error + AnalysisResponse)" where
  "analyze_classroom fl srv send request now now_latest now_history =
     (case analyze_students fl (fatigue_analyzer srv) (students request) [] of
        (fa, Inl e) \<Rightarrow> (srv\<lparr>fatigue_analyzer := fa\<rparr>, Inl (HTTPException 500 e))
      | (fa, Inr statuses) \<Rightarrow>
          let overall = (if statuses \<noteq> [] then np_mean fl (map attention_score statuses) else 0);
              response = \<lparr>resp_classroom_id = classroom_id request,
                          analysis_timestamp = now,
                          overall_attention = overall,
                          student_statuses = statuses,
                          teaching_recommendations =
                            generate_teaching_recommendations fl statuses (course_id request),
                          alert_flags = detect_anomalies statuses\<rparr>
          in (save_and_broadcast (srv\<lparr>fatigue_analyzer := fa\<rparr>) send
                (classroom_id request) response now_latest now_history,
              Inr response))"

text \<open>The fatigue state after the loop has classified a list of students.\<close>

definition append_ear :: "StudentData \<Rightarrow> main_FatigueAnalyzer \<Rightarrow> main_FatigueAnalyzer" where
  "append_ear student h =
     h(student_id student \<mapsto>
         deque_append 30 (case h (student_id student) of None \<Rightarrow> [] | Some w \<Rightarrow> w)
           (eye_aspect_ratio student))"

text \<open>A student record and a request with the fields that matter filled in.\<close>

definition student_of :: "string \<Rightarrow> real list list \<Rightarrow> real \<Rightarrow> StudentData" where
  "student_of sid lm ear =
     \<lparr>student_id = sid, face_bbox = [], landmarks = lm, head_pose = Map.empty,
      eye_aspect_ratio = ear, mouth_aspect_ratio = 0, local_timestamp = 0\<rparr>"

definition request_of :: "StudentData list \<Rightarrow> AnalysisRequest" where
  "request_of ss =
     \<lparr>classroom_id = ''room_101'', course_id = ''math_1'', timestamp = ''t'',
      student_count = int (length ss), students = ss\<rparr>"

section \<open>Properties of the MemoryStore\<close>

lemma deque_append_most_recent: "deque_append n xs x = most_recent n (xs @ [x])"
  by (simp add: deque_append_def most_recent_def Let_def)

lemma most_recent_append_most_recent:
  "most_recent n (most_recent n xs @ ys) = most_recent n (xs @ ys)"
proof (cases "length xs \<le> n")
  case True
  then show ?thesis by (simp add: most_recent_def)
next
  case False
  define k where "k = length xs - n"
  have lx: "length xs = k + n" using False by (simp add: k_def)
  have l1: "length (drop k xs) = n" using lx by simp
  have "most_recent n (drop k xs @ ys) = drop (length ys) (drop k xs @ ys)"
    unfolding most_recent_def using l1 by simp
  also have "\<dots> = drop (length ys) (drop k xs) @ drop (length ys - n) ys"
    using l1 by simp
  also have "\<dots> = drop (k + length ys) xs @ drop (length ys - n) ys"
    by (simp add: add.commute)
  also have "\<dots> = drop (k + length ys) xs @ drop (k + length ys - length xs) ys"
    using lx by simp
  also have "\<dots> = drop (k + length ys) (xs @ ys)" by simp
  also have "\<dots> = most_recent n (xs @ ys)"
    unfolding most_recent_def using lx by simp
  finally show ?thesis by (simp add: most_recent_def k_def)
qed

lemma add_history_step:
  assumes "0 \<le> max_history st"
  shows "add_history st cid now d =
     Inr (st\<lparr>history_data := (history_data st)
           (cid \<mapsto> deque_append (nat (max_history st)) (buffered st cid) \<lparr>entry_timestamp = now, entry_data = d\<rparr>)\<rparr>)"
  using assms by (simp add: add_history_def buffered_def Let_def split: option.splits)

lemma add_history_all_history:
  assumes "0 \<le> max_history st"
  shows "\<exists>st'. add_history_all st cid es = Inr st' \<and> max_history st' = max_history st
           \<and> classroom_data st' = classroom_data st
           \<and> (es \<noteq> [] \<longrightarrow> history_data st' cid \<noteq> None)
           \<and> buffered st' cid = (if es = [] then buffered st cid else 
                 most_recent (nat (max_history st)) (buffered st cid @ map mk_entry es))"
  using assms
proof (induction es arbitrary: st)
  case Nil
  then show ?case by simp
next
  case (Cons e es)
  obtain now d where e: "e = (now, d)" by (cases e)
  define st1 where "st1 = st\<lparr>history_data := (history_data st)
           (cid \<mapsto> deque_append (nat (max_history st)) (buffered st cid) \<lparr>entry_timestamp = now, entry_data = d\<rparr>)\<rparr>"
  have step: "add_history st cid now d = Inr st1"
    unfolding st1_def using Cons.prems by (rule add_history_step)
  have st1: "max_history st1 = max_history st" "classroom_data st1 = classroom_data st"
    "history_data st1 cid \<noteq> None"
    "buffered st1 cid = most_recent (nat (max_history st)) (buffered st cid @ [mk_entry e])"
    by (simp_all add: st1_def buffered_def deque_append_most_recent mk_entry_def e)
  from Cons.IH[of st1] st1 Cons.prems
  obtain st' where st': "add_history_all st1 cid es = Inr st'" "max_history st' = max_history st"
      "classroom_data st' = classroom_data st"
      "es \<noteq> [] \<longrightarrow> history_data st' cid \<noteq> None"
      "buffered st' cid = (if es = [] then buffered st1 cid else 
                 most_recent (nat (max_history st)) (buffered st1 cid @ map mk_entry es))"
    by auto
  have "add_history_all st cid (e # es) = Inr st'"
    using step st'(1) e by simp
  moreover have "history_data st' cid \<noteq> None"
    using st'(1,4) st1(3) by (cases "es = []") auto
  moreover have "buffered st' cid = most_recent (nat (max_history st)) (buffered st cid @ map mk_entry (e # es))"
    using st'(5) st1(4) by (simp add: most_recent_append_most_recent)
  ultimately show ?case using st'(2,3) by simp
qed

lemma get_history_buffered: "get_history st cid limit = py_slice_from (- limit) (buffered st cid)"
  by (simp add: get_history_def buffered_def)

lemma py_slice_from_positive:
  "0 < limit \<Longrightarrow> py_slice_from (- limit) xs = most_recent (nat limit) xs"
  apply (simp add: py_slice_from_def most_recent_def)
  apply (rule arg_cong[where f="\<lambda>k. drop k xs"])
  by linarith



text \<open>
  Claim C7.  With a non-negative capacity \<open>max_history\<close>, inserting \<open>max_history + 5\<close> entries
  for one classroom (into any store) succeeds, and \<open>get_history\<close> with limit
  \<open>max_history + 5\<close> then returns exactly the entries after the five oldest inserted ones, in
  insertion order: \<open>max_history\<close> entries, and none of the five oldest when the entries are
  pairwise different.
\<close>

theorem history_ring:
  assumes "0 \<le> max_history st" and "length es = nat (max_history st) + 5"
  shows "\<exists>st'. add_history_all st cid es = Inr st'
          \<and> get_history st' cid (max_history st + 5) = map mk_entry (drop 5 es)
          \<and> length (get_history st' cid (max_history st + 5)) = nat (max_history st)
          \<and> (distinct (map mk_entry es) \<longrightarrow>
                set (map mk_entry (take 5 es)) \<inter> set (get_history st' cid (max_history st + 5)) = {})"
proof -
  let ?n = "nat (max_history st)"
  have ne: "es \<noteq> []" using assms(2) by auto
  obtain st' where st': "add_history_all st cid es = Inr st'"
     "buffered st' cid = most_recent ?n (buffered st cid @ map mk_entry es)"
    using add_history_all_history[OF assms(1), of cid es] ne by auto
  have buf: "buffered st' cid = map mk_entry (drop 5 es)"
    using st'(2) assms(2) by (simp add: most_recent_def drop_map)
  have "0 < max_history st + 5" using assms(1) by simp
  hence "get_history st' cid (max_history st + 5) = most_recent (nat (max_history st + 5)) (buffered st' cid)"
    by (simp only: get_history_buffered py_slice_from_positive)
  hence gh: "get_history st' cid (max_history st + 5) = map mk_entry (drop 5 es)"
    using buf assms(2) by (simp add: most_recent_def)
  have len: "length (map mk_entry (drop 5 es)) = ?n" using assms(2) by simp
  have dis: "distinct (map mk_entry es) \<longrightarrow>
      set (map mk_entry (take 5 es)) \<inter> set (map mk_entry (drop 5 es)) = {}"
  proof
    assume "distinct (map mk_entry es)"
    hence "distinct (map mk_entry (take 5 es) @ map mk_entry (drop 5 es))"
      by (simp only: map_append[symmetric] append_take_drop_id)
    thus "set (map mk_entry (take 5 es)) \<inter> set (map mk_entry (drop 5 es)) = {}"
      by (simp only: distinct_append)
  qed
  show ?thesis
  proof (intro exI[of _ st'] conjI)
    show "add_history_all st cid es = Inr st'" by (rule st'(1))
    show "get_history st' cid (max_history st + 5) = map mk_entry (drop 5 es)" by (rule gh)
    show "length (get_history st' cid (max_history st + 5)) = nat (max_history st)"
      by (simp only: gh len)
    show "distinct (map mk_entry es) \<longrightarrow>
                set (map mk_entry (take 5 es)) \<inter> set (get_history st' cid (max_history st + 5)) = {}"
      using dis by (simp only: gh)
  qed
qed

text \<open>
  Capacity 2 and seven insertions: the last two remain.
\<close>

theorem history_ring_witness:
  "0 \<le> max_history (MemoryStore_init 2 :: (nat, nat) MemoryStore)
   \<and> length [(1::nat, 10::nat), (2, 20), (3, 30), (4, 40), (5, 50), (6, 60), (7, 70)]
        = nat (max_history (MemoryStore_init 2 :: (nat, nat) MemoryStore)) + 5
   \<and> (\<exists>st'. add_history_all (MemoryStore_init 2) ''room_101''
               [(1::nat, 10::nat), (2, 20), (3, 30), (4, 40), (5, 50), (6, 60), (7, 70)] = Inr st'
          \<and> get_history st' ''room_101'' 7 = [mk_entry (6, 60), mk_entry (7, 70)])"
proof -
  let ?S = "MemoryStore_init 2 :: (nat, nat) MemoryStore"
  let ?ES = "[(1::nat, 10::nat), (2, 20), (3, 30), (4, 40), (5, 50), (6, 60), (7, 70)]"
  have h1: "0 \<le> max_history ?S" by (simp add: MemoryStore_init_def)
  have h2: "length ?ES = nat (max_history ?S) + 5" by (simp add: MemoryStore_init_def)
  have m: "max_history ?S + 5 = 7" by (simp add: MemoryStore_init_def)
  have d: "map mk_entry (drop 5 ?ES) = [mk_entry (6, 60), mk_entry (7, 70)]" by simp
  from history_ring [OF h1 h2, of "''room_101''"]
  obtain st' where "add_history_all ?S ''room_101'' ?ES = Inr st'"
    "get_history st' ''room_101'' (max_history ?S + 5) = map mk_entry (drop 5 ?ES)"
    by blast
  hence "\<exists>st'. add_history_all ?S ''room_101'' ?ES = Inr st'
          \<and> get_history st' ''room_101'' 7 = [mk_entry (6, 60), mk_entry (7, 70)]"
    by (simp only: m d) blast
  with h1 h2 show ?thesis by blast
qed

text \<open>
  Claim C8.  The claim promises the empty list for limit 0.  \<open>get_history\<close> slices with
  \<^verbatim>\<open>[-limit:]\<close>, which for limit 0 is the whole list: after two insertions into an empty store
  of capacity 100, \<open>get_history\<close> with limit 0 returns both entries.
\<close>

theorem get_history_limit_zero:
  "\<exists>st'. add_history_all (MemoryStore_init 100) ''room_101'' [(1::nat, 10::nat), (2, 20)] = Inr st'
     \<and> get_history st' ''room_101'' 0 = [mk_entry (1, 10), mk_entry (2, 20)]"
  by (simp add: MemoryStore_init_def add_history_def get_history_def py_slice_from_def
      deque_append_def mk_entry_def Let_def)

lemma get_history_positive_limit:
  "0 < limit \<Longrightarrow> get_history st cid limit = most_recent (nat limit) (buffered st cid)"
  by (simp only: get_history_buffered py_slice_from_positive)

lemma get_history_unknown: "history_data st cid = None \<Longrightarrow> get_history st cid limit = []"
  by (simp add: get_history_def py_slice_from_def)


section \<open>Properties of the attention score\<close>

lemma pose_get_pose_of:
  "pose_get (pose_of yaw pitch) ''yaw'' = yaw" "pose_get (pose_of yaw pitch) ''pitch'' = pitch"
  by (simp_all add: pose_get_def pose_of_def)

lemma np_mean_axis0_ok:
  assumes "rows = r0 # rs" "r0 \<noteq> []" "list_all (\<lambda>r. length r = length r0) rows"
  shows "\<exists>fc. np_mean_axis0 fl rows = Inr (np_mean_column fl (map hd rows) # fc)"
proof -
  have nr: "\<not> list_ex (\<lambda>r. length r \<noteq> length r0) rows"
    using assms(3) by (simp add: list_all_iff list_ex_iff)
  obtain n where n: "length r0 = Suc n" using assms(2) by (cases r0) auto
  have hd0: "map (\<lambda>r. r ! 0) rows = map hd rows"
  proof (rule map_cong[OF refl])
    fix r assume "r \<in> set rows"
    hence "length r = Suc n" using assms(3) n by (simp add: list_all_iff)
    thus "r ! 0 = hd r" by (cases r) auto
  qed
  have up: "[0..<Suc n] = 0 # [Suc 0..<Suc n]" by (simp add: upt_rec)
  have "np_mean_axis0 fl rows
          = Inr (map (\<lambda>j. np_mean_column fl (map (\<lambda>r. r ! j) rows)) [0..<Suc n])"
    using nr assms(1) n by (simp add: np_mean_axis0_def)
  thus ?thesis unfolding up by (simp add: hd0)
qed

lemma np_mean_axis0_ragged:
  assumes "rows = r0 # rs" "\<not> list_all (\<lambda>r. length r = length r0) rows"
  shows "np_mean_axis0 fl rows = Inl ValueError"
  using assms by (simp add: np_mean_axis0_def list_all_iff list_ex_iff)

lemma np_mean_axis0_empty_rows:
  assumes "rows = [] # rs" "list_all (\<lambda>r. length r = 0) rows"
  shows "np_mean_axis0 fl rows = Inr []"
  using assms by (auto simp add: np_mean_axis0_def list_all_iff list_ex_iff)

lemma pose_score:
  fixes y p :: real
  shows "(let score = (100::real);
        yaw = \<bar>y\<bar>;
        pitch = p;
        score = (if yaw > 15 then score - min ((yaw - 15) * (3 / 2)) 40 else score);
        score = (if pitch > 20 then score - 25 else if pitch < - 15 then score - 15 else score)
    in f score)
   = f (100 - (if \<bar>y\<bar> > 15 then min ((\<bar>y\<bar> - 15) * (3 / 2)) 40 else 0)
            - (if p > 20 then 25 else 0) - (if p < - 15 then 15 else 0))"
  by (auto simp add: Let_def)

lemma take_100_cons:
  assumes "length lm > 468"
  shows "take 100 lm = lm ! 0 # take 99 (tl lm)" "lm ! 1 \<in> set (take 100 lm)"
proof -
  obtain a b rest where lm: "lm = a # b # rest" using assms
    by (cases lm; cases "tl lm") auto
  show "take 100 lm = lm ! 0 # take 99 (tl lm)" by (simp add: lm)
  show "lm ! 1 \<in> set (take 100 lm)" by (simp add: lm)
qed

lemma predict_small:
  assumes "length lm \<le> 468"
  shows "AttentionAnalyzer_predict fl lm hp = Inr (attention_spec fl lm hp)"
  unfolding AttentionAnalyzer_predict_def pose_score attention_spec_def Let_def
  using assms by simp

lemma predict_mesh:
  assumes "length lm > 468" "lm ! 0 \<noteq> []" "list_all (\<lambda>r. length r = length (lm ! 0)) (take 100 lm)"
  shows "AttentionAnalyzer_predict fl lm hp = Inr (attention_spec fl lm hp)"
proof -
  note t = take_100_cons[OF assms(1)]
  obtain fc where fc: "np_mean_axis0 fl (take 100 lm) = Inr (np_mean_column fl (map hd (take 100 lm)) # fc)"
    using np_mean_axis0_ok[OF t(1) assms(2) assms(3)] by blast
  have "length (lm ! 1) = length (lm ! 0)" using t(2) assms(3) by (simp add: list_all_iff)
  then obtain nx nrest where nose: "lm ! 1 = nx # nrest" using assms(2) by (cases "lm ! 1") auto
  show ?thesis
    unfolding AttentionAnalyzer_predict_def pose_score attention_spec_def Let_def
    using assms(1) by (simp add: fc nose del: One_nat_def)
qed

lemma predict_malformed:
  assumes "\<not> landmarks_ok lm"
  shows "\<exists>e. AttentionAnalyzer_predict fl lm hp = Inl e"
proof -
  have len: "length lm > 468" using assms by (simp add: landmarks_ok_def)
  note t = take_100_cons[OF len]
  have bad: "lm ! 0 = [] \<or> \<not> list_all (\<lambda>r. length r = length (lm ! 0)) (take 100 lm)"
    using assms by (auto simp: landmarks_ok_def)
  show ?thesis
  proof (cases "list_all (\<lambda>r. length r = length (lm ! 0)) (take 100 lm)")
    case False
    have "np_mean_axis0 fl (take 100 lm) = Inl ValueError"
      by (rule np_mean_axis0_ragged[OF t(1) False])
    thus ?thesis unfolding AttentionAnalyzer_predict_def pose_score using len by simp
  next
    case True
    hence e0: "lm ! 0 = []" using bad by blast
    have "length (lm ! 1) = length (lm ! 0)" using t(2) True by (simp add: list_all_iff)
    hence nose: "lm ! 1 = []" using e0 by simp
    have "np_mean_axis0 fl (take 100 lm) = Inr []"
      using np_mean_axis0_empty_rows[of "take 100 lm" "take 99 (tl lm)"] t(1) True e0 by simp
    thus ?thesis unfolding AttentionAnalyzer_predict_def pose_score using len 
      by (simp add: nose del: One_nat_def)
  qed
qed

lemma attention_spec_range: "0 \<le> attention_spec fl lm hp \<and> attention_spec fl lm hp \<le> 100"
  by (simp add: attention_spec_def np_clip_def Let_def)

text \<open>
  Claim C4, on the landmark lists the code can score.  For every head pose and every landmark
  list that has at most 468 points, or whose first hundred points are non-empty rows of one
  length, the score is 100 minus \<open>min ((|yaw| - 15) * 1.5) 40\<close> when \<open>|yaw| > 15\<close>, minus 25 when
  \<open>pitch > 20\<close>, minus 15 when \<open>pitch < -15\<close>, minus 15 when there are more than 468 points and
  the offset of point 1 exceeds 0.08, clipped to [0, 100].  The offset is the float64
  difference between the first coordinate of point 1 and numpy's float64 mean of the first
  coordinates of the first hundred points, in absolute value, and 0.08 is its float64 value;
  this holds whatever the rounding of the mean and of the difference.  On every other landmark
  list the analyser raises.  With no landmarks, yaw 0 and pitch 0 the score is 100.
\<close>

theorem attention_score:
  "(landmarks_ok lm \<longrightarrow>
       AttentionAnalyzer_predict fl lm hp = Inr (attention_spec fl lm hp)
       \<and> 0 \<le> attention_spec fl lm hp \<and> attention_spec fl lm hp \<le> 100)
   \<and> (\<not> landmarks_ok lm \<longrightarrow> (\<exists>e. AttentionAnalyzer_predict fl lm hp = Inl e))
   \<and> AttentionAnalyzer_predict fl [] (pose_of 0 0) = Inr 100"
proof -
  have a: "landmarks_ok lm \<longrightarrow> AttentionAnalyzer_predict fl lm hp = Inr (attention_spec fl lm hp)"
    using predict_small[of lm fl hp] predict_mesh[of lm fl hp]
    by (cases "length lm \<le> 468") (auto simp: landmarks_ok_def)
  have b: "AttentionAnalyzer_predict fl [] (pose_of 0 0) = Inr 100"
    by (simp add: AttentionAnalyzer_predict_def pose_get_pose_of np_clip_def Let_def)
  from a b attention_spec_range[of fl lm hp] predict_malformed[of lm fl hp] show ?thesis by blast
qed

text \<open>
  A mesh of 469 points without coordinates: the analyser raises instead of returning a score.
\<close>

theorem attention_score_counterexample:
  "AttentionAnalyzer_predict exact_ops (replicate 469 []) (pose_of 0 0) = Inl IndexError"
proof -
  have t: "take 100 (replicate 469 ([]::real list)) = [] # replicate 99 []"
    by (simp add: numeral_eq_Suc)
  have "np_mean_axis0 exact_ops (take 100 (replicate 469 ([]::real list))) = Inr []"
    unfolding t by (simp add: np_mean_axis0_def list_ex_iff)
  thus ?thesis
    by (simp add: AttentionAnalyzer_predict_def Let_def del: One_nat_def)
qed


text \<open>
  The rounding of the mean decides the penalty on a mesh whose offset is 0.08 without rounding:
  rows (0.02, 0) and (0.18, 0), then 467 rows (0.1, 0).
\<close>

lemma mesh_penalty_follows_float_mean:
  "AttentionAnalyzer_predict fl ([2/100, 0] # [18/100, 0] # replicate 467 [1/10, 0]) (pose_of 0 0)
   = Inr (if \<bar>float_sub fl (18/100)
                (np_mean_column fl (2/100 # 18/100 # replicate 98 (1/10)))\<bar> > float64_0_08
          then 85 else 100)"
proof -
  have t: "take 100 ([2/100, 0] # [18/100, 0] # replicate 467 [1/10, 0::real])
             = [2/100, 0] # [18/100, 0] # replicate 98 [1/10, 0]"
    by simp
  have m: "np_mean_axis0 fl ([2/100, 0] # [18/100, 0] # replicate 98 [1/10, 0::real])
             = Inr [np_mean_column fl (2/100 # 18/100 # replicate 98 (1/10)),
                    np_mean_column fl (0 # 0 # replicate 98 0)]"
    by (simp add: np_mean_axis0_def list_ex_iff upt_rec)
  show ?thesis
    unfolding AttentionAnalyzer_predict_def t m
    by (simp add: Let_def pose_get_pose_of np_clip_def)
qed

lemma landmarks_ok_mesh: "landmarks_ok (replicate 469 [1/2, 1/2, 0])"
  by (simp add: landmarks_ok_def list_all_iff)

lemma not_landmarks_ok_empty_rows: "\<not> landmarks_ok (replicate 469 [])"
  by (simp add: landmarks_ok_def)

lemma attention_spec_mesh:
  "attention_spec exact_ops (replicate 469 [1/2, 1/2, 0]) (pose_of 30 0) = 155 / 2"
  by (simp add: attention_spec_def pose_get_pose_of exact_ops_def float64_0_08_def np_clip_def
      Let_def sum_list_replicate)

text \<open>
  A mesh of 469 equal points with yaw 30 scores 77.5; the mesh without coordinates raises.
\<close>

theorem attention_score_witness:
  "landmarks_ok (replicate 469 [1/2, 1/2, 0])
   \<and> AttentionAnalyzer_predict exact_ops (replicate 469 [1/2, 1/2, 0]) (pose_of 30 0)
       = Inr (155 / 2)
   \<and> \<not> landmarks_ok (replicate 469 [])
   \<and> (\<exists>e. AttentionAnalyzer_predict exact_ops (replicate 469 []) (pose_of 30 0) = Inl e)"
  using attention_score [of "replicate 469 [1/2, 1/2, 0]" exact_ops "pose_of 30 0"]
    attention_score [of "replicate 469 []" exact_ops "pose_of 30 0"]
    landmarks_ok_mesh not_landmarks_ok_empty_rows attention_spec_mesh
  by simp

section \<open>Properties of the fatigue classifiers\<close>

lemma decision_spec:
  "(if length ew < 10 then Inr (s, ''alert'')
    else let closed_frames = length (filter (\<lambda>e. e < ear_closed_threshold) ew);
             perclos = real closed_frames / real (length ew);
             is_yawning = (np_mean fl mw > mar_yawn_threshold)
         in if perclos > perclos_drowsy then Inr (s, ''drowsy'')
            else if perclos > perclos_tired \<or> is_yawning then Inr (s, ''tired'')
            else Inr (s, ''alert'')) = (Inr (s, classify_spec fl ew mw) :: py_error + (FatigueAnalyzer \<times> string))"
  by (simp add: classify_spec_def PERCLOS_def Let_def ear_closed_threshold_def
      mar_yawn_threshold_def perclos_drowsy_def perclos_tired_def)

lemma FatigueAnalyzer_predict_step:
  assumes "0 \<le> history_size fa"
  shows "FatigueAnalyzer_predict fl fa ear mar sid =
     Inr (fa\<lparr>ear_history := (ear_history fa)
                (sid \<mapsto> deque_append (nat (history_size fa)) (ear_window fa sid) ear),
             mar_history := (mar_history fa)
                (sid \<mapsto> deque_append 10 (mar_window fa sid) mar)\<rparr>,
          classify_spec fl (deque_append (nat (history_size fa)) (ear_window fa sid) ear)
                        (deque_append 10 (mar_window fa sid) mar))"
proof -
  have "\<not> (ear_history fa sid = None \<and> history_size fa < 0)" using assms by simp
  thus ?thesis
    unfolding FatigueAnalyzer_predict_def Let_def ear_window_def mar_window_def
    by (simp only: if_False decision_spec[unfolded Let_def])
qed

lemma FatigueAnalyzer_run_snoc:
  "FatigueAnalyzer_run fl fa (ins @ [(sid, ear, mar)]) =
     (case FatigueAnalyzer_run fl fa ins of
        Inl e \<Rightarrow> Inl e
      | Inr (fa', levels) \<Rightarrow>
          (case FatigueAnalyzer_predict fl fa' ear mar sid of
             Inl e \<Rightarrow> Inl e
           | Inr (fa'', level) \<Rightarrow> Inr (fa'', levels @ [level])))"
  by (induction fa ins rule: FatigueAnalyzer_run.induct)
     (auto split: sum.splits prod.splits)

lemma ears_of_snoc:
  "ears_of s (ins @ [(sid, ear, mar)]) = (if sid = s then ears_of s ins @ [ear] else ears_of s ins)"
  "mars_of s (ins @ [(sid, ear, mar)]) = (if sid = s then mars_of s ins @ [mar] else mars_of s ins)"
  by (simp_all add: ears_of_def mars_of_def)

lemma FatigueAnalyzer_run_windows:
  assumes "0 \<le> hs"
  shows "\<exists>fa levels. FatigueAnalyzer_run fl (FatigueAnalyzer_init hs) ins = Inr (fa, levels)
           \<and> history_size fa = hs \<and> length levels = length ins
           \<and> (\<forall>s. ear_window fa s = most_recent (nat hs) (ears_of s ins)
                  \<and> mar_window fa s = most_recent 10 (mars_of s ins))"
proof (induction ins rule: rev_induct)
  case Nil
  show ?case
    by (simp add: FatigueAnalyzer_init_def ear_window_def mar_window_def ears_of_def mars_of_def
        most_recent_def)
next
  case (snoc x ins)
  obtain sid ear mar where x: "x = (sid, ear, mar)" by (cases x) auto
  from snoc obtain fa levels where
    run: "FatigueAnalyzer_run fl (FatigueAnalyzer_init hs) ins = Inr (fa, levels)"
    and hs: "history_size fa = hs" and len: "length levels = length ins"
    and win: "\<And>s. ear_window fa s = most_recent (nat hs) (ears_of s ins)"
             "\<And>s. mar_window fa s = most_recent 10 (mars_of s ins)"
    by blast
  define fa' where "fa' = fa\<lparr>ear_history := (ear_history fa)
                (sid \<mapsto> deque_append (nat (history_size fa)) (ear_window fa sid) ear),
             mar_history := (mar_history fa)
                (sid \<mapsto> deque_append 10 (mar_window fa sid) mar)\<rparr>"
  have step: "FatigueAnalyzer_predict fl fa ear mar sid =
     Inr (fa', classify_spec fl (deque_append (nat (history_size fa)) (ear_window fa sid) ear)
                        (deque_append 10 (mar_window fa sid) mar))"
    unfolding fa'_def using assms hs by (intro FatigueAnalyzer_predict_step) simp
  have r: "FatigueAnalyzer_run fl (FatigueAnalyzer_init hs) (ins @ [x]) =
      Inr (fa', levels @ [classify_spec fl (deque_append (nat (history_size fa)) (ear_window fa sid) ear)
                        (deque_append 10 (mar_window fa sid) mar)])"
    unfolding x FatigueAnalyzer_run_snoc run by (simp add: step)
  have h': "history_size fa' = hs" by (simp add: fa'_def hs)
  have w: "ear_window fa' s = most_recent (nat hs) (ears_of s (ins @ [x]))
           \<and> mar_window fa' s = most_recent 10 (mars_of s (ins @ [x]))" for s
  proof (cases "s = sid")
    case True
    have "ear_window fa' sid = most_recent (nat hs) (most_recent (nat hs) (ears_of sid ins) @ [ear])"
      by (simp add: fa'_def ear_window_def deque_append_most_recent hs win(1)[unfolded ear_window_def])
    moreover have "mar_window fa' sid = most_recent 10 (most_recent 10 (mars_of sid ins) @ [mar])"
      by (simp add: fa'_def mar_window_def deque_append_most_recent win(2)[unfolded mar_window_def])
    ultimately show ?thesis
      unfolding True x ears_of_snoc by (simp add: most_recent_append_most_recent)
  next
    case False
    have "ear_window fa' s = ear_window fa s" "mar_window fa' s = mar_window fa s"
      using False by (simp_all add: fa'_def ear_window_def mar_window_def)
    thus ?thesis unfolding x ears_of_snoc using False win by simp
  qed
  show ?case using r h' w len by auto
qed


lemma main_decision:
  "(if length ew < 10 then (h, ''alert'')
    else let closed_frames = length (filter (\<lambda>e. e < 2 / 10) ew);
             closed_ratio = real closed_frames / real (length ew);
             is_yawning = (mar > 5 / 10)
         in if closed_ratio > 7 / 10 then (h, ''drowsy'')
            else if closed_ratio > 3 / 10 \<or> is_yawning then (h, ''tired'')
            else (h, ''alert'')) = ((h, main_classify ew mar) :: main_FatigueAnalyzer \<times> string)"
  by (simp add: main_classify_def PERCLOS_def Let_def)

lemma main_FatigueAnalyzer_predict_step:
  "main_FatigueAnalyzer_predict h ear mar sid =
     (h(sid \<mapsto> deque_append 30 (main_ear_window h sid) ear),
      main_classify (deque_append 30 (main_ear_window h sid) ear) mar)"
  unfolding main_FatigueAnalyzer_predict_def Let_def main_ear_window_def
  by (simp only: main_decision[unfolded Let_def])

lemma main_FatigueAnalyzer_run_snoc:
  "main_FatigueAnalyzer_run h (ins @ [(sid, ear, mar)]) =
     (case main_FatigueAnalyzer_run h ins of
        (h', levels) \<Rightarrow>
          (case main_FatigueAnalyzer_predict h' ear mar sid of
             (h'', level) \<Rightarrow> (h'', levels @ [level])))"
  by (induction h ins rule: main_FatigueAnalyzer_run.induct)
     (auto split: prod.splits)

lemma main_FatigueAnalyzer_run_windows:
  "\<exists>h levels. main_FatigueAnalyzer_run Map.empty ins = (h, levels)
           \<and> length levels = length ins
           \<and> (\<forall>s. main_ear_window h s = most_recent 30 (ears_of s ins))"
proof (induction ins rule: rev_induct)
  case Nil
  show ?case by (simp add: main_ear_window_def ears_of_def most_recent_def)
next
  case (snoc x ins)
  obtain sid ear mar where x: "x = (sid, ear, mar)" by (cases x) auto
  from snoc obtain h levels where
    run: "main_FatigueAnalyzer_run Map.empty ins = (h, levels)"
    and len: "length levels = length ins"
    and win: "\<And>s. main_ear_window h s = most_recent 30 (ears_of s ins)"
    by blast
  define h' where "h' = h(sid \<mapsto> deque_append 30 (main_ear_window h sid) ear)"
  have r: "main_FatigueAnalyzer_run Map.empty (ins @ [x]) =
      (h', levels @ [main_classify (deque_append 30 (main_ear_window h sid) ear) mar])"
    unfolding x main_FatigueAnalyzer_run_snoc run
    by (simp add: main_FatigueAnalyzer_predict_step h'_def)
  have w: "main_ear_window h' s = most_recent 30 (ears_of s (ins @ [x]))" for s
  proof (cases "s = sid")
    case True
    have "main_ear_window h' sid = most_recent 30 (most_recent 30 (ears_of sid ins) @ [ear])"
      by (simp add: h'_def main_ear_window_def deque_append_most_recent
          win[unfolded main_ear_window_def])
    thus ?thesis
      unfolding True x ears_of_snoc by (simp add: most_recent_append_most_recent)
  next
    case False
    have "main_ear_window h' s = main_ear_window h s"
      using False by (simp add: h'_def main_ear_window_def)
    thus ?thesis unfolding x ears_of_snoc using False win by simp
  qed
  show ?case using r w len by auto
qed

text \<open>
  Claim C1, as both classifiers implement it.  Start from a fresh analyser and feed any sequence
  of samples, then one more sample of student \<open>sid\<close>.  The classifier of models/fatigue_net.py
  (with a non-negative \<open>history_size\<close>) then holds the most recent \<open>history_size\<close> ear values and
  the most recent 10 mar values of that student, and it returns \<open>alert\<close> while the ear window
  has fewer than 10 samples, otherwise \<open>drowsy\<close> iff PERCLOS exceeds 0.3, else \<open>tired\<close> iff
  PERCLOS exceeds 0.15 or the yawn flag is set, else \<open>alert\<close>.  The yawn flag is set when
  numpy's float64 mean of the mouth window exceeds 0.5; this holds whatever the rounding of
  that mean.  The classifier of main.py holds the most recent 30 ear values and no mouth window; it returns
  \<open>alert\<close> under 10 samples, otherwise \<open>drowsy\<close> iff PERCLOS exceeds 0.7, else \<open>tired\<close> iff PERCLOS
  exceeds 0.3 or the current mar sample exceeds 0.5, else \<open>alert\<close>.
\<close>

theorem fatigue_classification:
  assumes "0 \<le> hs"
  shows "(\<exists>fa levels.
            FatigueAnalyzer_run fl (FatigueAnalyzer_init hs) (ins @ [(sid, ear, mar)]) = Inr (fa, levels)
            \<and> length levels = length ins + 1
            \<and> ear_window fa sid = most_recent (nat hs) (ears_of sid ins @ [ear])
            \<and> mar_window fa sid = most_recent 10 (mars_of sid ins @ [mar])
            \<and> last levels = classify_spec fl (ear_window fa sid) (mar_window fa sid))
       \<and> (\<exists>h levels.
            main_FatigueAnalyzer_run main_FatigueAnalyzer_init (ins @ [(sid, ear, mar)])
              = (h, levels)
            \<and> length levels = length ins + 1
            \<and> main_ear_window h sid = most_recent 30 (ears_of sid ins @ [ear])
            \<and> last levels = main_classify (main_ear_window h sid) mar)"
proof -
  obtain fa levels where
    run: "FatigueAnalyzer_run fl (FatigueAnalyzer_init hs) ins = Inr (fa, levels)"
    and hs: "history_size fa = hs" and len: "length levels = length ins"
    and win: "ear_window fa sid = most_recent (nat hs) (ears_of sid ins)"
             "mar_window fa sid = most_recent 10 (mars_of sid ins)"
    using FatigueAnalyzer_run_windows[OF assms, where ins = ins and fl = fl] by blast
  define ew where "ew = deque_append (nat hs) (ear_window fa sid) ear"
  define mw where "mw = deque_append 10 (mar_window fa sid) mar"
  define fa' where "fa' = fa\<lparr>ear_history := (ear_history fa)(sid \<mapsto> ew),
                              mar_history := (mar_history fa)(sid \<mapsto> mw)\<rparr>"
  have step: "FatigueAnalyzer_predict fl fa ear mar sid = Inr (fa', classify_spec fl ew mw)"
    using FatigueAnalyzer_predict_step[of fa fl ear mar sid] assms hs
    by (simp add: fa'_def ew_def mw_def)
  have r: "FatigueAnalyzer_run fl (FatigueAnalyzer_init hs) (ins @ [(sid, ear, mar)])
             = Inr (fa', levels @ [classify_spec fl ew mw])"
    unfolding FatigueAnalyzer_run_snoc run by (simp add: step)
  have ew1: "ear_window fa' sid = ew" and mw1: "mar_window fa' sid = mw"
    by (simp_all add: fa'_def ear_window_def mar_window_def)
  have ew2: "ew = most_recent (nat hs) (ears_of sid ins @ [ear])"
    by (simp add: ew_def win deque_append_most_recent most_recent_append_most_recent)
  have mw2: "mw = most_recent 10 (mars_of sid ins @ [mar])"
    by (simp add: mw_def win deque_append_most_recent most_recent_append_most_recent)
  have A: "\<exists>fa levels.
            FatigueAnalyzer_run fl (FatigueAnalyzer_init hs) (ins @ [(sid, ear, mar)]) = Inr (fa, levels)
            \<and> length levels = length ins + 1
            \<and> ear_window fa sid = most_recent (nat hs) (ears_of sid ins @ [ear])
            \<and> mar_window fa sid = most_recent 10 (mars_of sid ins @ [mar])
            \<and> last levels = classify_spec fl (ear_window fa sid) (mar_window fa sid)"
  proof (intro exI[of _ fa'] exI[of _ "levels @ [classify_spec fl ew mw]"] conjI)
    show "FatigueAnalyzer_run fl (FatigueAnalyzer_init hs) (ins @ [(sid, ear, mar)])
            = Inr (fa', levels @ [classify_spec fl ew mw])" by (rule r)
    show "length (levels @ [classify_spec fl ew mw]) = length ins + 1" by (simp add: len)
    show "ear_window fa' sid = most_recent (nat hs) (ears_of sid ins @ [ear])"
      using ew1 ew2 by simp
    show "mar_window fa' sid = most_recent 10 (mars_of sid ins @ [mar])"
      using mw1 mw2 by simp
    show "last (levels @ [classify_spec fl ew mw])
            = classify_spec fl (ear_window fa' sid) (mar_window fa' sid)"
      by (simp add: ew1 mw1)
  qed
  obtain h mlevels where
    mrun: "main_FatigueAnalyzer_run Map.empty ins = (h, mlevels)"
    and mlen: "length mlevels = length ins"
    and mwin: "main_ear_window h sid = most_recent 30 (ears_of sid ins)"
    using main_FatigueAnalyzer_run_windows[of ins] by blast
  define w where "w = deque_append 30 (main_ear_window h sid) ear"
  define h' where "h' = h(sid \<mapsto> w)"
  have mr: "main_FatigueAnalyzer_run Map.empty (ins @ [(sid, ear, mar)])
              = (h', mlevels @ [main_classify w mar])"
    unfolding main_FatigueAnalyzer_run_snoc mrun
    by (simp add: main_FatigueAnalyzer_predict_step h'_def w_def)
  have w1: "main_ear_window h' sid = w" by (simp add: main_ear_window_def h'_def)
  have w2: "w = most_recent 30 (ears_of sid ins @ [ear])"
    by (simp add: w_def mwin deque_append_most_recent most_recent_append_most_recent)
  have B: "\<exists>h levels.
            main_FatigueAnalyzer_run Map.empty (ins @ [(sid, ear, mar)]) = (h, levels)
            \<and> length levels = length ins + 1
            \<and> main_ear_window h sid = most_recent 30 (ears_of sid ins @ [ear])
            \<and> last levels = main_classify (main_ear_window h sid) mar"
  proof (intro exI[of _ h'] exI[of _ "mlevels @ [main_classify w mar]"] conjI)
    show "main_FatigueAnalyzer_run Map.empty (ins @ [(sid, ear, mar)])
              = (h', mlevels @ [main_classify w mar])" by (rule mr)
    show "length (mlevels @ [main_classify w mar]) = length ins + 1" by (simp add: mlen)
    show "main_ear_window h' sid = most_recent 30 (ears_of sid ins @ [ear])"
      using w1 w2 by simp
    show "last (mlevels @ [main_classify w mar]) = main_classify (main_ear_window h' sid) mar"
      by (simp add: w1)
  qed
  from A B show ?thesis unfolding main_FatigueAnalyzer_init_def by blast
qed

text \<open>
  The rounding of the mean decides the yawn flag on a mouth window whose mean is 0.5 without
  rounding: five samples 0.6, then five samples 0.4, with open eyes.
\<close>

lemma yawn_flag_follows_float_mean:
  "FatigueAnalyzer_run fl (FatigueAnalyzer_init 30)
     [(''s1'', 3/10, 6/10), (''s1'', 3/10, 6/10), (''s1'', 3/10, 6/10), (''s1'', 3/10, 6/10),
      (''s1'', 3/10, 6/10), (''s1'', 3/10, 4/10), (''s1'', 3/10, 4/10), (''s1'', 3/10, 4/10),
      (''s1'', 3/10, 4/10), (''s1'', 3/10, 4/10)]
   = Inr (\<lparr>ear_history = [''s1'' \<mapsto> [3/10, 3/10, 3/10, 3/10, 3/10, 3/10, 3/10, 3/10, 3/10, 3/10]],
          mar_history = [''s1'' \<mapsto> [6/10, 6/10, 6/10, 6/10, 6/10, 4/10, 4/10, 4/10, 4/10, 4/10]],
          history_size = 30\<rparr>,
         [''alert'', ''alert'', ''alert'', ''alert'', ''alert'', ''alert'', ''alert'', ''alert'',
          ''alert'',
          if np_mean fl [6/10, 6/10, 6/10, 6/10, 6/10, 4/10, 4/10, 4/10, 4/10, 4/10] > 1/2
          then ''tired'' else ''alert''])"
  by (simp add: FatigueAnalyzer_init_def FatigueAnalyzer_predict_def deque_append_def Let_def
      ear_closed_threshold_def mar_yawn_threshold_def perclos_drowsy_def perclos_tired_def)

text \<open>
  Six open-eye samples and four closed-eye samples give PERCLOS 0.4.  The documented decision
  is \<open>drowsy\<close>; the classifier of main.py answers \<open>tired\<close>.
\<close>

theorem main_fatigue_counterexample:
  "snd (main_FatigueAnalyzer_run main_FatigueAnalyzer_init
          [(''s1'', 3/10, 0), (''s1'', 3/10, 0), (''s1'', 3/10, 0), (''s1'', 3/10, 0),
           (''s1'', 3/10, 0), (''s1'', 3/10, 0), (''s1'', 1/10, 0), (''s1'', 1/10, 0),
           (''s1'', 1/10, 0), (''s1'', 1/10, 0)])
     = [''alert'', ''alert'', ''alert'', ''alert'', ''alert'', ''alert'', ''alert'', ''alert'',
        ''alert'', ''tired'']
   \<and> PERCLOS [3/10, 3/10, 3/10, 3/10, 3/10, 3/10, 1/10, 1/10, 1/10, 1/10] = 4 / 10
   \<and> classify_spec exact_ops [3/10, 3/10, 3/10, 3/10, 3/10, 3/10, 1/10, 1/10, 1/10, 1/10]
         [0, 0, 0, 0, 0, 0, 0, 0, 0, 0] = ''drowsy''"
  by (simp add: main_FatigueAnalyzer_init_def main_FatigueAnalyzer_predict_def deque_append_def
      classify_spec_def PERCLOS_def Let_def)

text \<open>
  The tenth sample of a student with open eyes and an open mouth, window size 30: the ear window
  holds ten samples with PERCLOS 0, the mean of the mouth window is 0.75, the level is \<open>tired\<close>.
\<close>

theorem fatigue_classification_witness:
  "(0::int) \<le> 30
   \<and> (\<exists>fa levels.
         FatigueAnalyzer_run exact_ops (FatigueAnalyzer_init 30)
           ([(''s1'', 1/4, 3/4), (''s1'', 1/4, 3/4), (''s1'', 1/4, 3/4), (''s1'', 1/4, 3/4),
             (''s1'', 1/4, 3/4), (''s1'', 1/4, 3/4), (''s1'', 1/4, 3/4), (''s1'', 1/4, 3/4),
             (''s1'', 1/4, 3/4)] @ [(''s1'', 1/4, 3/4)]) = Inr (fa, levels)
         \<and> length levels = 10
         \<and> ear_window fa ''s1'' = [1/4, 1/4, 1/4, 1/4, 1/4, 1/4, 1/4, 1/4, 1/4, 1/4]
         \<and> mar_window fa ''s1'' = [3/4, 3/4, 3/4, 3/4, 3/4, 3/4, 3/4, 3/4, 3/4, 3/4]
         \<and> last levels = ''tired'')"
proof -
  let ?ins = "[(''s1'', 1/4, 3/4), (''s1'', 1/4, 3/4), (''s1'', 1/4, 3/4), (''s1'', 1/4, 3/4),
             (''s1'', 1/4, 3/4), (''s1'', 1/4, 3/4), (''s1'', 1/4, 3/4), (''s1'', 1/4, 3/4),
             (''s1'', 1/4, 3/4 :: real)] :: (string \<times> real \<times> real) list"
  have h: "(0::int) \<le> 30" by simp
  from fatigue_classification [OF h, where fl = exact_ops and ins = ?ins and sid = "''s1''"
      and ear = "1/4" and mar = "3/4"]
  obtain fa levels where
    r: "FatigueAnalyzer_run exact_ops (FatigueAnalyzer_init 30) (?ins @ [(''s1'', 1/4, 3/4)])
          = Inr (fa, levels)"
    and l: "length levels = length ?ins + 1"
    and e: "ear_window fa ''s1'' = most_recent (nat 30) (ears_of ''s1'' ?ins @ [1/4])"
    and m: "mar_window fa ''s1'' = most_recent 10 (mars_of ''s1'' ?ins @ [3/4])"
    and c: "last levels = classify_spec exact_ops (ear_window fa ''s1'') (mar_window fa ''s1'')"
    by blast
  have e': "ear_window fa ''s1'' = [1/4, 1/4, 1/4, 1/4, 1/4, 1/4, 1/4, 1/4, 1/4, 1/4]"
    unfolding e by (simp add: most_recent_def ears_of_def)
  have m': "mar_window fa ''s1'' = [3/4, 3/4, 3/4, 3/4, 3/4, 3/4, 3/4, 3/4, 3/4, 3/4]"
    unfolding m by (simp add: most_recent_def mars_of_def)
  have c': "last levels = ''tired''"
    unfolding c e' m' by (simp add: classify_spec_def PERCLOS_def exact_ops_def)
  have l': "length levels = 10" using l by simp
  from h r l' e' m' c' show ?thesis by blast
qed

section \<open>Properties of the behaviour tags\<close>

lemma direction_nested:
  fixes yaw pitch :: real
  shows "(if \<bar>yaw\<bar> \<le> 15 then
            (if \<bar>pitch\<bar> \<le> 20 then [''looking_front'']
             else if pitch > 25 then [''looking_down''] else [])
          else if \<bar>yaw\<bar> > 45 then [''turning_around'']
          else if yaw > 20 then [''looking_left'']
          else if yaw < - 20 then [''looking_right'']
          else []) = direction_spec yaw pitch"
  unfolding direction_spec_def by (cases "\<bar>yaw\<bar> \<le> 15") auto

lemma BehaviorAnalyzer_analyze_split:
  "BehaviorAnalyzer_analyze hp f
     = direction_spec (pose_get hp ''yaw'') (pose_get hp ''pitch'')
       @ fatigue_posture_spec (pose_get hp ''pitch'') f"
  unfolding BehaviorAnalyzer_analyze_def Let_def direction_nested
  by (simp add: fatigue_posture_spec_def)

lemma filter_direction_spec:
  "filter (\<lambda>t. t \<in> set direction_tags) (direction_spec yaw pitch) = direction_spec yaw pitch"
  "filter (\<lambda>t. t \<in> set fatigue_posture_tags) (direction_spec yaw pitch) = []"
  by (simp_all add: direction_spec_def direction_tags_def fatigue_posture_tags_def)

lemma filter_fatigue_posture_spec:
  "filter (\<lambda>t. t \<in> set direction_tags) (fatigue_posture_spec pitch f) = []"
  "filter (\<lambda>t. t \<in> set fatigue_posture_tags) (fatigue_posture_spec pitch f) = fatigue_posture_spec pitch f"
  by (simp_all add: fatigue_posture_spec_def direction_tags_def fatigue_posture_tags_def)

lemma main_BehaviorAnalyzer_analyze_split:
  "main_BehaviorAnalyzer_analyze hp f
     = main_direction (pose_get hp ''yaw'') (pose_get hp ''pitch'')
       @ main_fatigue_posture (pose_get hp ''pitch'') f"
  unfolding main_BehaviorAnalyzer_analyze_def Let_def main_direction_def main_fatigue_posture_def
  by simp

lemma filter_main_direction:
  "filter (\<lambda>t. t \<in> set direction_tags) (main_direction yaw pitch) = main_direction yaw pitch"
  "filter (\<lambda>t. t \<in> set fatigue_posture_tags) (main_direction yaw pitch) = []"
  by (simp_all add: main_direction_def direction_tags_def fatigue_posture_tags_def)

lemma filter_main_fatigue_posture:
  "filter (\<lambda>t. t \<in> set direction_tags) (main_fatigue_posture pitch f) = []"
  "filter (\<lambda>t. t \<in> set fatigue_posture_tags) (main_fatigue_posture pitch f) = main_fatigue_posture pitch f"
  by (simp_all add: main_fatigue_posture_def direction_tags_def fatigue_posture_tags_def)

lemma direction_spec_length: "length (direction_spec yaw pitch) \<le> 1"
  by (simp add: direction_spec_def)

lemma direction_spec_turning:
  "\<bar>yaw\<bar> > 45 \<Longrightarrow> direction_spec yaw pitch = [''turning_around'']"
  by (simp add: direction_spec_def)

text \<open>
  Claim C2, as both analysers implement it.  The direction tags emitted by
  analysis/benavior_engine.py are exactly those of the documented rule list read first match
  first: at most one tag, and a pose with \<open>|yaw| > 45\<close> is tagged \<open>turning_around\<close> and not
  \<open>looking_down\<close>.  The analyser of main.py emits \<open>looking_front\<close> when \<open>|yaw| < 15\<close> and
  \<open>|pitch| < 20\<close>, else \<open>looking_down\<close> when \<open>pitch > 25\<close> whatever the yaw, else \<open>turning_around\<close>
  when \<open>|yaw| > 45\<close>, and never \<open>looking_left\<close> or \<open>looking_right\<close>.
\<close>

theorem direction_rules:
  "filter (\<lambda>t. t \<in> set direction_tags) (BehaviorAnalyzer_analyze hp f)
       = direction_spec (pose_get hp ''yaw'') (pose_get hp ''pitch'')
   \<and> length (filter (\<lambda>t. t \<in> set direction_tags) (BehaviorAnalyzer_analyze hp f)) \<le> 1
   \<and> (\<bar>pose_get hp ''yaw''\<bar> > 45 \<longrightarrow>
         ''turning_around'' \<in> set (BehaviorAnalyzer_analyze hp f)
         \<and> ''looking_down'' \<notin> set (BehaviorAnalyzer_analyze hp f))
   \<and> filter (\<lambda>t. t \<in> set direction_tags) (main_BehaviorAnalyzer_analyze hp f)
       = main_direction (pose_get hp ''yaw'') (pose_get hp ''pitch'')"
proof -
  let ?y = "pose_get hp ''yaw''" and ?p = "pose_get hp ''pitch''"
  have a: "filter (\<lambda>t. t \<in> set direction_tags) (BehaviorAnalyzer_analyze hp f) = direction_spec ?y ?p"
    by (simp only: BehaviorAnalyzer_analyze_split filter_append filter_direction_spec
        filter_fatigue_posture_spec append_Nil2)
  have b: "length (filter (\<lambda>t. t \<in> set direction_tags) (BehaviorAnalyzer_analyze hp f)) \<le> 1"
    by (simp only: a direction_spec_length)
  have c: "\<bar>?y\<bar> > 45 \<longrightarrow> ''turning_around'' \<in> set (BehaviorAnalyzer_analyze hp f)
         \<and> ''looking_down'' \<notin> set (BehaviorAnalyzer_analyze hp f)"
  proof
    assume "\<bar>?y\<bar> > 45"
    hence "BehaviorAnalyzer_analyze hp f = [''turning_around''] @ fatigue_posture_spec ?p f"
      by (simp only: BehaviorAnalyzer_analyze_split direction_spec_turning)
    thus "''turning_around'' \<in> set (BehaviorAnalyzer_analyze hp f)
         \<and> ''looking_down'' \<notin> set (BehaviorAnalyzer_analyze hp f)"
      by (simp add: fatigue_posture_spec_def)
  qed
  have d: "filter (\<lambda>t. t \<in> set direction_tags) (main_BehaviorAnalyzer_analyze hp f) = main_direction ?y ?p"
    by (simp only: main_BehaviorAnalyzer_analyze_split filter_append filter_main_direction
        filter_main_fatigue_posture append_Nil2)
  from a b c d show ?thesis by blast
qed

text \<open>
  A pose with yaw 50 and pitch 30 matches neither of the first two documented rules and has
  \<open>|yaw| > 45\<close>; main.py tags it \<open>looking_down\<close>, not \<open>turning_around\<close>.
\<close>

theorem main_direction_counterexample:
  "\<bar>pose_get (pose_of 50 30) ''yaw''\<bar> > 45
   \<and> main_BehaviorAnalyzer_analyze (pose_of 50 30) ''alert'' = [''looking_down'']
   \<and> direction_spec 50 30 = [''turning_around'']"
  by (simp add: main_BehaviorAnalyzer_analyze_def direction_spec_def pose_get_pose_of Let_def)

text \<open>
  The same pose through analysis/benavior_engine.py.
\<close>

theorem direction_rules_witness:
  "\<bar>pose_get (pose_of 50 30) ''yaw''\<bar> > 45
   \<and> ''turning_around'' \<in> set (BehaviorAnalyzer_analyze (pose_of 50 30) ''alert'')
   \<and> ''looking_down'' \<notin> set (BehaviorAnalyzer_analyze (pose_of 50 30) ''alert'')"
  using direction_rules [of "pose_of 50 30" "''alert''"]
  by (simp add: pose_get_pose_of)

lemma fatigue_posture_membership:
  "(''eyes_closed'' \<in> set (BehaviorAnalyzer_analyze hp f) \<longleftrightarrow> f = ''drowsy'')
   \<and> (''head_dropping'' \<in> set (BehaviorAnalyzer_analyze hp f)
        \<longleftrightarrow> f = ''drowsy'' \<and> pose_get hp ''pitch'' > 35)
   \<and> (''rubbing_eyes'' \<in> set (BehaviorAnalyzer_analyze hp f) \<longleftrightarrow> f = ''tired'')
   \<and> (''head_down'' \<in> set (BehaviorAnalyzer_analyze hp f) \<longleftrightarrow> \<bar>pose_get hp ''pitch''\<bar> > 40)"
  unfolding BehaviorAnalyzer_analyze_split
  by (simp add: direction_spec_def fatigue_posture_spec_def)


text \<open>
  Claim C3, as both analysers implement it.  In analysis/benavior_engine.py the fatigue and
  posture tags depend on the pitch and the fatigue level only: \<open>eyes_closed\<close> iff drowsy,
  \<open>head_dropping\<close> iff drowsy and \<open>pitch > 35\<close>, \<open>rubbing_eyes\<close> iff tired, \<open>head_down\<close> iff
  \<open>|pitch| > 40\<close>, in this order.  The analyser of main.py emits \<open>eyes_closed\<close> iff drowsy and
  \<open>head_dropping\<close> iff \<open>pitch > 35\<close> and the level is drowsy or tired; it has no \<open>rubbing_eyes\<close>
  and no \<open>head_down\<close> tag.
\<close>

theorem fatigue_posture_rules:
  "filter (\<lambda>t. t \<in> set fatigue_posture_tags) (BehaviorAnalyzer_analyze hp f)
       = fatigue_posture_spec (pose_get hp ''pitch'') f
   \<and> (''eyes_closed'' \<in> set (BehaviorAnalyzer_analyze hp f) \<longleftrightarrow> f = ''drowsy'')
   \<and> (''head_dropping'' \<in> set (BehaviorAnalyzer_analyze hp f)
        \<longleftrightarrow> f = ''drowsy'' \<and> pose_get hp ''pitch'' > 35)
   \<and> (''rubbing_eyes'' \<in> set (BehaviorAnalyzer_analyze hp f) \<longleftrightarrow> f = ''tired'')
   \<and> (''head_down'' \<in> set (BehaviorAnalyzer_analyze hp f) \<longleftrightarrow> \<bar>pose_get hp ''pitch''\<bar> > 40)
   \<and> filter (\<lambda>t. t \<in> set fatigue_posture_tags) (main_BehaviorAnalyzer_analyze hp f)
       = main_fatigue_posture (pose_get hp ''pitch'') f"
proof -
  have a: "filter (\<lambda>t. t \<in> set fatigue_posture_tags) (BehaviorAnalyzer_analyze hp f)
       = fatigue_posture_spec (pose_get hp ''pitch'') f"
    by (simp only: BehaviorAnalyzer_analyze_split filter_append filter_direction_spec
        filter_fatigue_posture_spec append_Nil)
  have b: "filter (\<lambda>t. t \<in> set fatigue_posture_tags) (main_BehaviorAnalyzer_analyze hp f)
       = main_fatigue_posture (pose_get hp ''pitch'') f"
    by (simp only: main_BehaviorAnalyzer_analyze_split filter_append filter_main_direction
        filter_main_fatigue_posture append_Nil)
  from a b fatigue_posture_membership[of hp f] show ?thesis by blast
qed

text \<open>
  A tired student with pitch 36: the documented tags are \<open>rubbing_eyes\<close> alone; main.py emits
  \<open>head_dropping\<close> and no \<open>rubbing_eyes\<close>.
\<close>

theorem main_fatigue_posture_counterexample:
  "main_BehaviorAnalyzer_analyze (pose_of 0 36) ''tired'' = [''looking_down'', ''head_dropping'']
   \<and> fatigue_posture_spec 36 ''tired'' = [''rubbing_eyes'']"
  by (simp add: main_BehaviorAnalyzer_analyze_def fatigue_posture_spec_def pose_get_pose_of Let_def)

text \<open>
  The same student through both analysers.
\<close>

theorem fatigue_posture_rules_witness:
  "filter (\<lambda>t. t \<in> set fatigue_posture_tags) (BehaviorAnalyzer_analyze (pose_of 0 36) ''tired'')
     = [''rubbing_eyes'']
   \<and> filter (\<lambda>t. t \<in> set fatigue_posture_tags)
        (main_BehaviorAnalyzer_analyze (pose_of 0 36) ''tired'') = [''head_dropping'']"
  using fatigue_posture_rules [of "pose_of 0 36" "''tired''"]
  by (simp add: pose_get_pose_of fatigue_posture_spec_def main_fatigue_posture_def)

section \<open>Properties of the engagement index\<close>

lemma foldl_bonuses:
  "foldl (\<lambda>score behavior. score + bonuses behavior) s bs
     = s + 5 * real (count_list bs ''looking_front'')
         - 5 * real (count_list bs ''turning_around'')
         - 20 * real (count_list bs ''head_dropping'')"
  by (induction bs arbitrary: s) (simp_all add: bonuses_def)

lemma np_clip_range: "0 \<le> np_clip x 0 100 \<and> np_clip x 0 100 \<le> 100"
  by (simp add: np_clip_def)

text \<open>
  Claim C5.  For a fatigue level among alert, tired and drowsy, and any attention and any tag
  list, the engagement index is the attention plus the fatigue penalty (0, -10, -30) plus 5 for
  each \<open>looking_front\<close>, minus 5 for each \<open>turning_around\<close>, minus 20 for each \<open>head_dropping\<close>,
  nothing for any other tag, clipped to [0, 100]; so it lies in [0, 100].
\<close>

theorem engagement_formula:
  assumes "fatigue \<in> set [''alert'', ''tired'', ''drowsy'']"
  shows "calculate_engagement attention fatigue behaviors =
           np_clip (attention
                    + (if fatigue = ''alert'' then 0 else if fatigue = ''tired'' then - 10 else - 30)
                    + 5 * real (count_list behaviors ''looking_front'')
                    - 5 * real (count_list behaviors ''turning_around'')
                    - 20 * real (count_list behaviors ''head_dropping'')) 0 100
         \<and> 0 \<le> calculate_engagement attention fatigue behaviors
         \<and> calculate_engagement attention fatigue behaviors \<le> 100"
proof -
  have p: "penalties fatigue = (if fatigue = ''alert'' then 0 else if fatigue = ''tired'' then - 10 else - 30)"
    using assms by (auto simp: penalties_def)
  show ?thesis
    unfolding calculate_engagement_def foldl_bonuses p
    using np_clip_range by simp
qed

text \<open>
  Attention 60, drowsy, with a \<open>head_dropping\<close> tag: 60 - 30 - 20 = 10.
\<close>

theorem engagement_formula_witness:
  "''drowsy'' \<in> set [''alert'', ''tired'', ''drowsy'']
   \<and> calculate_engagement 60 ''drowsy'' [''looking_down'', ''eyes_closed'', ''head_dropping''] = 10"
  using engagement_formula [of "''drowsy''" 60 "[''looking_down'', ''eyes_closed'', ''head_dropping'']"]
  by (simp add: np_clip_def)


section \<open>Properties of the ConnectionManager\<close>











text \<open>
  Why the other tasks matter: a handler that disconnects the first connection while its send is
  awaited shortens the live list, and the loop passes over the second connection.
\<close>

lemma broadcast_interleaved_skips:
  "broadcast [''room_101'' \<mapsto> [1::nat, 2, 3]] (\<lambda>c msg. Inr ())
     [[Disconnect 1 ''room_101'']] ''room_101'' ''snapshot''
   = ([''room_101'' \<mapsto> [2, 3]], [(1, True), (3, True)], None)"
  by (simp add: broadcast_def broadcast_loop.simps Let_def manager_calls_def disconnect_def)



section \<open>Properties of the analysis cycle\<close>

lemma AttentionAnalyzer_predict_range:
  assumes "AttentionAnalyzer_predict fl lm hp = Inr a"
  shows "0 \<le> a \<and> a \<le> 100"
proof (cases "landmarks_ok lm")
  case True
  hence "AttentionAnalyzer_predict fl lm hp = Inr (attention_spec fl lm hp)"
    using predict_small[of lm fl hp] predict_mesh[of lm fl hp]
    by (cases "length lm \<le> 468") (auto simp: landmarks_ok_def)
  hence "a = attention_spec fl lm hp" using assms by simp
  thus ?thesis using attention_spec_range[of fl lm hp] by simp
next
  case False
  then obtain e where "AttentionAnalyzer_predict fl lm hp = Inl e"
    using predict_malformed[of lm fl hp] by blast
  thus ?thesis using assms by simp
qed

lemma calculate_engagement_range:
  "0 \<le> calculate_engagement a f bs \<and> calculate_engagement a f bs \<le> 100"
  unfolding calculate_engagement_def by (rule np_clip_range)

lemma StudentStatus_new_ok:
  assumes "0 \<le> a \<and> a \<le> 100"
  shows "\<exists>status. StudentStatus_new sid a f bs (calculate_engagement a f bs) sg = Inr status"
  using assms calculate_engagement_range[of a f bs] by (simp add: StudentStatus_new_def)

lemma main_predict_fst:
  "fst (main_FatigueAnalyzer_predict fa (eye_aspect_ratio s) (mouth_aspect_ratio s) (student_id s))
     = append_ear s fa"
  by (simp add: main_FatigueAnalyzer_predict_step append_ear_def main_ear_window_def)

lemma analyze_students_ok_step:
  assumes "AttentionAnalyzer_predict fl (landmarks s) (head_pose s) = Inr a"
  shows "\<exists>status. analyze_students fl fa (s # rest) acc
            = analyze_students fl (append_ear s fa) rest (acc @ [status])"
proof -
  obtain fa' f where p: "main_FatigueAnalyzer_predict fa (eye_aspect_ratio s)
      (mouth_aspect_ratio s) (student_id s) = (fa', f)" by (cases "main_FatigueAnalyzer_predict fa (eye_aspect_ratio s)
      (mouth_aspect_ratio s) (student_id s)")
  have fa': "fa' = append_ear s fa" using main_predict_fst[of fa s] p by simp
  have r: "0 \<le> a \<and> a \<le> 100" using AttentionAnalyzer_predict_range[OF assms] .
  obtain status where st: "StudentStatus_new (student_id s) a f (main_BehaviorAnalyzer_analyze (head_pose s) f)
      (calculate_engagement a f (main_BehaviorAnalyzer_analyze (head_pose s) f))
      (generate_suggestions a f (main_BehaviorAnalyzer_analyze (head_pose s) f)) = Inr status"
    using StudentStatus_new_ok[OF r] by blast
  have "analyze_students fl fa (s # rest) acc = analyze_students fl (append_ear s fa) rest (acc @ [status])"
    by (simp add: assms p Let_def st fa')
  thus ?thesis by blast
qed

lemma analyze_students_abort:
  assumes "\<forall>s\<in>set pre. \<exists>a. AttentionAnalyzer_predict fl (landmarks s) (head_pose s) = Inr a"
    and "AttentionAnalyzer_predict fl (landmarks bad) (head_pose bad) = Inl e"
  shows "analyze_students fl fa (pre @ bad # post) acc = (fold append_ear pre fa, Inl e)"
  using assms(1)
proof (induction pre arbitrary: fa acc)
  case Nil
  show ?case by (simp add: assms(2))
next
  case (Cons s pre)
  obtain a where a: "AttentionAnalyzer_predict fl (landmarks s) (head_pose s) = Inr a"
    using Cons.prems by auto
  obtain status where "analyze_students fl fa (s # (pre @ bad # post)) acc
            = analyze_students fl (append_ear s fa) (pre @ bad # post) (acc @ [status])"
    using analyze_students_ok_step[OF a] by blast
  moreover have "analyze_students fl (append_ear s fa) (pre @ bad # post) (acc @ [status])
     = (fold append_ear pre (append_ear s fa), Inl e)"
    using Cons.prems by (intro Cons.IH) simp
  ultimately show ?case by simp
qed

lemma analyze_classroom_abort:
  assumes "analyze_students fl (fatigue_analyzer srv) (students request) [] = (fa, Inl e)"
  shows "analyze_classroom fl srv send request now now_latest now_history
           = (srv\<lparr>fatigue_analyzer := fa\<rparr>, Inl (HTTPException 500 e))"
  by (simp add: analyze_classroom_def assms)

lemma analyze_students_raises:
  assumes "\<exists>s\<in>set ss. \<exists>e. AttentionAnalyzer_predict fl (landmarks s) (head_pose s) = Inl e"
  shows "\<exists>fa' e. analyze_students fl fa ss acc = (fa', Inl e)"
proof -
  let ?bad = "\<lambda>s. \<exists>e. AttentionAnalyzer_predict fl (landmarks s) (head_pose s) = Inl e"
  from assms obtain pre bad post where
    ss: "ss = pre @ bad # post" and bad: "?bad bad" and pre: "\<forall>s\<in>set pre. \<not> ?bad s"
    using split_list_first_prop[of ss ?bad] by blast
  from bad obtain e where e: "AttentionAnalyzer_predict fl (landmarks bad) (head_pose bad) = Inl e"
    by blast
  have ok: "\<forall>s\<in>set pre. \<exists>a. AttentionAnalyzer_predict fl (landmarks s) (head_pose s) = Inr a"
  proof
    fix s assume "s \<in> set pre"
    hence "\<not> ?bad s" using pre by blast
    thus "\<exists>a. AttentionAnalyzer_predict fl (landmarks s) (head_pose s) = Inr a"
      by (cases "AttentionAnalyzer_predict fl (landmarks s) (head_pose s)") auto
  qed
  show ?thesis unfolding ss using analyze_students_abort[OF ok e] by blast
qed

text \<open>
  Claim C9.  If the attention analyser raises for some student of the batch, the request ends
  with the error response 500 and neither the store nor the connection manager changes: the
  latest snapshot and the history of every classroom are what they were.
\<close>

theorem cycle_abort_commits_nothing:
  assumes "\<exists>s\<in>set (students request).
             \<exists>e. AttentionAnalyzer_predict fl (landmarks s) (head_pose s) = Inl e"
  shows "\<exists>srv' e. analyze_classroom fl srv send request now now_latest now_history
                     = (srv', Inl (HTTPException 500 e))
           \<and> store srv' = store srv
           \<and> manager srv' = manager srv
           \<and> (\<forall>cid. get_latest (store srv') cid = get_latest (store srv) cid)
           \<and> (\<forall>cid limit. get_history (store srv') cid limit
                              = get_history (store srv) cid limit)"
proof -
  obtain fa e where "analyze_students fl (fatigue_analyzer srv) (students request) [] = (fa, Inl e)"
    using analyze_students_raises[OF assms] by blast
  hence "analyze_classroom fl srv send request now now_latest now_history
           = (srv\<lparr>fatigue_analyzer := fa\<rparr>, Inl (HTTPException 500 e))"
    by (rule analyze_classroom_abort)
  thus ?thesis by simp
qed

lemma AttentionAnalyzer_predict_empty_rows:
  "AttentionAnalyzer_predict fl (replicate 469 []) hp = Inl IndexError"
proof -
  have t: "take 100 (replicate 469 ([]::real list)) = [] # replicate 99 []"
    by (simp add: numeral_eq_Suc)
  have "np_mean_axis0 fl (take 100 (replicate 469 ([]::real list))) = Inr []"
    unfolding t by (simp add: np_mean_axis0_def list_ex_iff)
  thus ?thesis
    by (simp add: AttentionAnalyzer_predict_def Let_def del: One_nat_def)
qed

lemma AttentionAnalyzer_predict_no_landmarks:
  "AttentionAnalyzer_predict fl [] Map.empty = Inr 100"
  by (simp add: AttentionAnalyzer_predict_def pose_get_def np_clip_def Let_def)

text \<open>
  A batch of two students, the second with a mesh without coordinates.
\<close>

theorem cycle_abort_commits_nothing_witness:
  "(\<exists>s\<in>set (students (request_of [student_of ''A'' [] (1/10), student_of ''B'' (replicate 469 []) (3/10)])).
       \<exists>e. AttentionAnalyzer_predict exact_ops (landmarks s) (head_pose s) = Inl e)
   \<and> (\<exists>srv' e. analyze_classroom exact_ops
          \<lparr>fatigue_analyzer = Map.empty, store = MemoryStore_init 100, manager = Map.empty\<rparr>
          (\<lambda>(c::nat) msg. Inr ())
          (request_of [student_of ''A'' [] (1/10), student_of ''B'' (replicate 469 []) (3/10)])
          ''t1'' ''t2'' ''t3'' = (srv', Inl (HTTPException 500 e))
        \<and> store srv' = MemoryStore_init 100)"
proof -
  let ?req = "request_of [student_of ''A'' [] (1/10), student_of ''B'' (replicate 469 []) (3/10)]"
  let ?srv = "\<lparr>fatigue_analyzer = Map.empty, store = MemoryStore_init 100,
               manager = (Map.empty :: nat ConnectionManager)\<rparr>"
  have h: "\<exists>s\<in>set (students ?req). \<exists>e. AttentionAnalyzer_predict exact_ops (landmarks s) (head_pose s) = Inl e"
    by (simp add: request_of_def student_of_def AttentionAnalyzer_predict_empty_rows)
  from cycle_abort_commits_nothing [OF h, where srv = ?srv and send = "\<lambda>c msg. Inr ()"
      and now = "''t1''" and now_latest = "''t2''" and now_history = "''t3''"]
  have "\<exists>srv' e. analyze_classroom exact_ops ?srv (\<lambda>c msg. Inr ()) ?req ''t1'' ''t2'' ''t3''
                     = (srv', Inl (HTTPException 500 e)) \<and> store srv' = MemoryStore_init 100"
    by simp blast
  with h show ?thesis by blast
qed

text \<open>
  Claim C10.  If the first \<open>k\<close> students of a batch are analysed and the next one makes the
  attention analyser raise, the request ends with the error response 500 and the ear samples of
  those \<open>k\<close> students stay appended to their windows; submitting the same batch again fails the
  same way and appends them a second time.  There is a batch where this changes the
  classification of a student: \<open>alert\<close> on the first submission, \<open>drowsy\<close> on the second.
\<close>

theorem cycle_abort_keeps_fatigue_samples:
  "(\<forall>(srv :: 'c Server) send (request :: AnalysisRequest) pre bad post e
      now now_latest now_history now' now_latest' now_history'.
      students request = pre @ bad # post
      \<and> (\<forall>s\<in>set pre. \<exists>a. AttentionAnalyzer_predict fl (landmarks s) (head_pose s) = Inr a)
      \<and> AttentionAnalyzer_predict fl (landmarks bad) (head_pose bad) = Inl e
      \<longrightarrow> (\<exists>srv1 srv2.
             analyze_classroom fl srv send request now now_latest now_history
               = (srv1, Inl (HTTPException 500 e))
             \<and> fatigue_analyzer srv1 = fold append_ear pre (fatigue_analyzer srv)
             \<and> analyze_classroom fl srv1 send request now' now_latest' now_history'
               = (srv2, Inl (HTTPException 500 e))
             \<and> fatigue_analyzer srv2
               = fold append_ear pre (fold append_ear pre (fatigue_analyzer srv))))
   \<and> (\<exists>fa s bad e.
         (\<exists>a. AttentionAnalyzer_predict fl (landmarks s) (head_pose s) = Inr a)
         \<and> AttentionAnalyzer_predict fl (landmarks bad) (head_pose bad) = Inl e
         \<and> snd (analyze_students fl fa [s, bad] []) = Inl e
         \<and> snd (main_FatigueAnalyzer_predict fa
                  (eye_aspect_ratio s) (mouth_aspect_ratio s) (student_id s)) = ''alert''
         \<and> snd (main_FatigueAnalyzer_predict (fst (analyze_students fl fa [s, bad] []))
                  (eye_aspect_ratio s) (mouth_aspect_ratio s) (student_id s)) = ''drowsy'')"
proof (intro conjI allI impI)
  fix srv :: "'c Server" and send and request :: AnalysisRequest
    and pre bad post e and now now_latest now_history now' now_latest' now_history' :: string
  assume H: "students request = pre @ bad # post
      \<and> (\<forall>s\<in>set pre. \<exists>a. AttentionAnalyzer_predict fl (landmarks s) (head_pose s) = Inr a)
      \<and> AttentionAnalyzer_predict fl (landmarks bad) (head_pose bad) = Inl e"
  hence st: "students request = pre @ bad # post"
    and ok: "\<forall>s\<in>set pre. \<exists>a. AttentionAnalyzer_predict fl (landmarks s) (head_pose s) = Inr a"
    and bad: "AttentionAnalyzer_predict fl (landmarks bad) (head_pose bad) = Inl e"
    by blast+
  define srv1 where "srv1 = srv\<lparr>fatigue_analyzer := fold append_ear pre (fatigue_analyzer srv)\<rparr>"
  define srv2 where "srv2 = srv1\<lparr>fatigue_analyzer := fold append_ear pre (fatigue_analyzer srv1)\<rparr>"
  have a1: "analyze_classroom fl srv send request now now_latest now_history
               = (srv1, Inl (HTTPException 500 e))"
    unfolding srv1_def
    by (rule analyze_classroom_abort) (simp only: st analyze_students_abort[OF ok bad])
  have r1: "students request = pre @ bad # post" by (rule st)
  have a2: "analyze_classroom fl srv1 send request now' now_latest' now_history'
               = (srv2, Inl (HTTPException 500 e))"
    unfolding srv2_def
    by (rule analyze_classroom_abort) (simp only: st analyze_students_abort[OF ok bad])
  have f1: "fatigue_analyzer srv1 = fold append_ear pre (fatigue_analyzer srv)"
    by (simp add: srv1_def)
  have f2: "fatigue_analyzer srv2 = fold append_ear pre (fold append_ear pre (fatigue_analyzer srv))"
    by (simp add: srv2_def srv1_def)
  show "\<exists>srv1 srv2.
             analyze_classroom fl srv send request now now_latest now_history
               = (srv1, Inl (HTTPException 500 e))
             \<and> fatigue_analyzer srv1 = fold append_ear pre (fatigue_analyzer srv)
             \<and> analyze_classroom fl srv1 send request now' now_latest' now_history'
               = (srv2, Inl (HTTPException 500 e))
             \<and> fatigue_analyzer srv2
               = fold append_ear pre (fold append_ear pre (fatigue_analyzer srv))"
    using a1 a2 f1 f2 by blast
next
  let ?fa = "[''A'' \<mapsto> [1/10, 1/10, 1/10, 1/10, 1/10, 1/10, 1/10, 1/10]] :: main_FatigueAnalyzer"
  let ?s = "student_of ''A'' [] (1/10)"
  let ?bad = "student_of ''B'' (replicate 469 []) (3/10)"
  have ok: "\<forall>s\<in>set [?s]. \<exists>a. AttentionAnalyzer_predict fl (landmarks s) (head_pose s) = Inr a"
    by (simp add: student_of_def AttentionAnalyzer_predict_no_landmarks)
  have bad: "AttentionAnalyzer_predict fl (landmarks ?bad) (head_pose ?bad) = Inl IndexError"
    by (simp add: student_of_def AttentionAnalyzer_predict_empty_rows)
  have run: "analyze_students fl ?fa ([?s] @ ?bad # []) [] = (fold append_ear [?s] ?fa, Inl IndexError)"
    by (rule analyze_students_abort[OF ok bad])
  hence run': "analyze_students fl ?fa [?s, ?bad] [] = (append_ear ?s ?fa, Inl IndexError)"
    by simp
  have p1: "snd (main_FatigueAnalyzer_predict ?fa
                  (eye_aspect_ratio ?s) (mouth_aspect_ratio ?s) (student_id ?s)) = ''alert''"
    by (simp add: main_FatigueAnalyzer_predict_def student_of_def deque_append_def Let_def)
  have p2: "snd (main_FatigueAnalyzer_predict (fst (analyze_students fl ?fa [?s, ?bad] []))
                  (eye_aspect_ratio ?s) (mouth_aspect_ratio ?s) (student_id ?s)) = ''drowsy''"
    unfolding run'
    by (simp add: main_FatigueAnalyzer_predict_def student_of_def append_ear_def
        deque_append_def Let_def)
  have a: "\<exists>a. AttentionAnalyzer_predict fl (landmarks ?s) (head_pose ?s) = Inr a"
    using ok by simp
  have e: "snd (analyze_students fl ?fa [?s, ?bad] []) = Inl IndexError"
    unfolding run' by simp
  show "\<exists>fa s bad e.
         (\<exists>a. AttentionAnalyzer_predict fl (landmarks s) (head_pose s) = Inr a)
         \<and> AttentionAnalyzer_predict fl (landmarks bad) (head_pose bad) = Inl e
         \<and> snd (analyze_students fl fa [s, bad] []) = Inl e
         \<and> snd (main_FatigueAnalyzer_predict fa
                  (eye_aspect_ratio s) (mouth_aspect_ratio s) (student_id s)) = ''alert''
         \<and> snd (main_FatigueAnalyzer_predict (fst (analyze_students fl fa [s, bad] []))
                  (eye_aspect_ratio s) (mouth_aspect_ratio s) (student_id s)) = ''drowsy''"
    using a bad e p1 p2 by blast
qed


text \<open>
  Student A is analysed, student B raises; after two submissions the window of A holds the
  sample twice.
\<close>

theorem cycle_abort_keeps_fatigue_samples_witness:
  "students (request_of [student_of ''A'' [] (1/10), student_of ''B'' (replicate 469 []) (3/10)])
     = [student_of ''A'' [] (1/10)] @ student_of ''B'' (replicate 469 []) (3/10) # []
   \<and> AttentionAnalyzer_predict exact_ops (landmarks (student_of ''A'' [] (1/10)))
         (head_pose (student_of ''A'' [] (1/10))) = Inr 100
   \<and> AttentionAnalyzer_predict exact_ops (landmarks (student_of ''B'' (replicate 469 []) (3/10)))
         (head_pose (student_of ''B'' (replicate 469 []) (3/10))) = Inl IndexError
   \<and> (\<exists>srv1 srv2.
         analyze_classroom exact_ops
           \<lparr>fatigue_analyzer = Map.empty, store = MemoryStore_init 100, manager = Map.empty\<rparr>
           (\<lambda>(c::nat) msg. Inr ())
           (request_of [student_of ''A'' [] (1/10), student_of ''B'' (replicate 469 []) (3/10)])
           ''t1'' ''t2'' ''t3'' = (srv1, Inl (HTTPException 500 IndexError))
         \<and> fatigue_analyzer srv1 ''A'' = Some [1/10]
         \<and> analyze_classroom exact_ops srv1 (\<lambda>(c::nat) msg. Inr ())
           (request_of [student_of ''A'' [] (1/10), student_of ''B'' (replicate 469 []) (3/10)])
           ''t4'' ''t5'' ''t6'' = (srv2, Inl (HTTPException 500 IndexError))
         \<and> fatigue_analyzer srv2 ''A'' = Some [1/10, 1/10])"
proof -
  let ?A = "student_of ''A'' [] (1/10)"
  let ?B = "student_of ''B'' (replicate 469 []) (3/10)"
  let ?req = "request_of [?A, ?B]"
  let ?srv = "\<lparr>fatigue_analyzer = Map.empty, store = MemoryStore_init 100,
               manager = (Map.empty :: nat ConnectionManager)\<rparr>"
  let ?send = "\<lambda>(c::nat) (msg::AnalysisResponse). (Inr () :: py_error + unit)"
  have h1: "students ?req = [?A] @ ?B # []" by (simp add: request_of_def)
  have h2: "\<forall>s\<in>set [?A]. \<exists>a. AttentionAnalyzer_predict exact_ops (landmarks s) (head_pose s) = Inr a"
    by (simp add: student_of_def AttentionAnalyzer_predict_no_landmarks)
  have h3: "AttentionAnalyzer_predict exact_ops (landmarks ?B) (head_pose ?B) = Inl IndexError"
    by (simp add: student_of_def AttentionAnalyzer_predict_empty_rows)
  have g: "students ?req = [?A] @ ?B # []
      \<and> (\<forall>s\<in>set [?A]. \<exists>a. AttentionAnalyzer_predict exact_ops (landmarks s) (head_pose s) = Inr a)
      \<and> AttentionAnalyzer_predict exact_ops (landmarks ?B) (head_pose ?B) = Inl IndexError
      \<longrightarrow> (\<exists>srv1 srv2.
             analyze_classroom exact_ops ?srv ?send ?req ''t1'' ''t2'' ''t3''
               = (srv1, Inl (HTTPException 500 IndexError))
             \<and> fatigue_analyzer srv1 = fold append_ear [?A] (fatigue_analyzer ?srv)
             \<and> analyze_classroom exact_ops srv1 ?send ?req ''t4'' ''t5'' ''t6''
               = (srv2, Inl (HTTPException 500 IndexError))
             \<and> fatigue_analyzer srv2
               = fold append_ear [?A] (fold append_ear [?A] (fatigue_analyzer ?srv)))"
    using cycle_abort_keeps_fatigue_samples [where 'c = nat and fl = exact_ops] by blast
  from g h1 h2 h3 obtain srv1 srv2 where
    a1: "analyze_classroom exact_ops ?srv ?send ?req ''t1'' ''t2'' ''t3''
               = (srv1, Inl (HTTPException 500 IndexError))"
    and f1: "fatigue_analyzer srv1 = fold append_ear [?A] (fatigue_analyzer ?srv)"
    and a2: "analyze_classroom exact_ops srv1 ?send ?req ''t4'' ''t5'' ''t6''
               = (srv2, Inl (HTTPException 500 IndexError))"
    and f2: "fatigue_analyzer srv2
               = fold append_ear [?A] (fold append_ear [?A] (fatigue_analyzer ?srv))"
    by blast
  have w1: "fatigue_analyzer srv1 ''A'' = Some [1/10]"
    unfolding f1 by (simp add: append_ear_def student_of_def deque_append_def)
  have w2: "fatigue_analyzer srv2 ''A'' = Some [1/10, 1/10]"
    unfolding f2 by (simp add: append_ear_def student_of_def deque_append_def)
  have h2': "AttentionAnalyzer_predict exact_ops (landmarks ?A) (head_pose ?A) = Inr 100"
    by (simp add: student_of_def AttentionAnalyzer_predict_no_landmarks)
  from h1 h2' h3 a1 a2 w1 w2 show ?thesis by blast
qed

lemma analyze_classroom_commits:
  assumes "analyze_students fl (fatigue_analyzer srv) (students request) [] = (fa, Inr statuses)"
  shows "\<exists>srv' response.
           analyze_classroom fl srv send request now now_latest now_history = (srv', Inr response)
           \<and> student_statuses response = statuses
           \<and> get_latest (store srv') (classroom_id request)
               = Some \<lparr>entry_timestamp = now_latest, entry_data = response\<rparr>"
  by (simp add: analyze_classroom_def assms Let_def save_and_broadcast_def set_latest_def
      get_latest_def add_history_def broadcast_def split: sum.splits option.splits prod.splits)


end
